theory Spec2Isabelle
  imports Main
begin

section \<open>Command-line parsing\<close>

subsection \<open>JavaScript primitives used by the parsers\<close>

text \<open>
  \<^verbatim>\<open>args[i]\<close> on a JavaScript array is \<^verbatim>\<open>undefined\<close> outside the array; it never throws.
  The read is modelled by an option.
\<close>

definition argAt :: "string list \<Rightarrow> nat \<Rightarrow> string option" where
  "argAt args i = (if i < length args then Some (args ! i) else None)"

text \<open>
  A token is the UTF-8 encoding of the JavaScript string, one \<open>char\<close> a byte; the tokens
  the parsers compare with are ASCII.
\<close>

text \<open>
  The white space that \<^verbatim>\<open>parseInt\<close> skips (\<^verbatim>\<open>StrWhiteSpaceChar\<close>): TAB, LF, VT, FF, CR,
  SP, and beyond ASCII U+00A0, U+1680, U+2000 to U+200A, U+2028, U+2029, U+202F, U+205F,
  U+3000 and U+FEFF. \<open>whiteSpaceLength s\<close> is the number of bytes of the white space
  character at the head of \<open>s\<close>, 0 if there is none.
\<close>

definition whiteSpaceLength :: "string \<Rightarrow> nat" where
  "whiteSpaceLength s =
     (case (map of_char (take 3 s) :: int list) of
        [] \<Rightarrow> 0
      | b0 # bs \<Rightarrow>
          if b0 \<in> {9, 10, 11, 12, 13, 32} then 1
          else if b0 = 194 \<and> take 1 bs = [160] then 2
          else if b0 = 225 \<and> bs = [154, 128] then 3
          else if b0 = 226 \<and> length bs = 2 \<and> hd bs = 128
                  \<and> (128 \<le> last bs \<and> last bs \<le> 138 \<or> last bs \<in> {168, 169, 175}) then 3
          else if b0 = 226 \<and> bs = [129, 159] then 3
          else if b0 = 227 \<and> bs = [128, 128] then 3
          else if b0 = 239 \<and> bs = [187, 191] then 3
          else 0)"

function skipWhiteSpace :: "string \<Rightarrow> string" where
  "skipWhiteSpace s =
     (if whiteSpaceLength s = 0 then s else skipWhiteSpace (drop (whiteSpaceLength s) s))"
  by pat_completeness auto
termination
proof (relation "measure length")
  show "wf (measure length)" by simp
next
  fix s :: string
  assume "whiteSpaceLength s \<noteq> 0"
  then have "s \<noteq> []"
    by (auto simp: whiteSpaceLength_def)
  with \<open>whiteSpaceLength s \<noteq> 0\<close> show "(drop (whiteSpaceLength s) s, s) \<in> measure length"
    by simp
qed

text \<open>
  A JavaScript number as \<^verbatim>\<open>parseInt\<close> can return it: an integer that a double holds, a
  negative zero, or an infinity. \<^verbatim>\<open>NaN\<close> is the \<open>None\<close> of an option.
\<close>

datatype JsNumber = Finite int | NegativeZero | PlusInfinity | MinusInfinity

text \<open>
  The double nearest to a non-negative integer (ties to even, as the engines round a
  decimal literal), \<open>None\<close> when it is beyond the largest double.
\<close>

function bitLength :: "int \<Rightarrow> nat" where
  "bitLength n = (if n \<le> 0 then 0 else Suc (bitLength (n div 2)))"
  by pat_completeness auto
termination
  by (relation "measure nat") auto

definition roundToDouble :: "int \<Rightarrow> int option" where
  "roundToDouble n =
     (if bitLength n \<le> 53 then Some n
      else
        (let e = bitLength n - 53;
             q = n div 2 ^ e;
             r = n mod 2 ^ e;
             half = 2 ^ (e - 1);
             q' = (if r > half \<or> (r = half \<and> odd q) then q + 1 else q);
             v = q' * 2 ^ e
         in if v \<ge> 2 ^ 1024 then None else Some v))"

text \<open>
  \<^verbatim>\<open>parseInt(s, 10)\<close>: leading white space is skipped, one sign is read, then the longest
  run of decimal digits; with no digit the result is \<^verbatim>\<open>NaN\<close> (here \<open>None\<close>), otherwise
  the signed value of the digits as a number.
\<close>

definition isDigit :: "char \<Rightarrow> bool" where
  "isDigit c = (48 \<le> (of_char c :: int) \<and> (of_char c :: int) \<le> 57)"

definition digitsValue :: "string \<Rightarrow> int" where
  "digitsValue ds = foldl (\<lambda>acc c. acc * 10 + ((of_char c :: int) - 48)) 0 ds"

definition parseInt10 :: "string \<Rightarrow> JsNumber option" where
  "parseInt10 s =
     (let t = skipWhiteSpace s;
          neg = (t \<noteq> [] \<and> hd t = CHR ''-'');
          u = (if t \<noteq> [] \<and> (hd t = CHR ''-'' \<or> hd t = CHR ''+'') then tl t else t);
          ds = takeWhile isDigit u
      in if ds = [] then None
         else (case roundToDouble (digitsValue ds) of
                 None \<Rightarrow> Some (if neg then MinusInfinity else PlusInfinity)
               | Some v \<Rightarrow>
                   Some (if neg then (if v = 0 then NegativeZero else Finite (- v))
                         else Finite v)))"

text \<open>\<^verbatim>\<open>s.startsWith('-')\<close>.\<close>

definition startsWithDash :: "string \<Rightarrow> bool" where
  "startsWithDash s = (case s of [] \<Rightarrow> False | c # _ \<Rightarrow> c = CHR ''-'')"

text \<open>
  The guard \<^verbatim>\<open>nextArg && !nextArg.startsWith('-')\<close> of \<^verbatim>\<open>parseRunArgs\<close>: \<^verbatim>\<open>undefined\<close> and
  the empty string are falsy.
\<close>

definition usableValue :: "string option \<Rightarrow> bool" where
  "usableValue nextArg =
     (case nextArg of None \<Rightarrow> False | Some s \<Rightarrow> s \<noteq> [] \<and> \<not> startsWithDash s)"

text \<open>
  The string read from a token that may be \<^verbatim>\<open>undefined\<close>: \<^verbatim>\<open>args[++i] ?? ''\<close> in
  \<^verbatim>\<open>parseCreatePrdArgs\<close>; in \<^verbatim>\<open>parseRunArgs\<close> the guard has excluded \<^verbatim>\<open>undefined\<close>.
\<close>

definition orEmpty :: "string option \<Rightarrow> string" where
  "orEmpty v = (case v of None \<Rightarrow> [] | Some s \<Rightarrow> s)"

subsection \<open>\<^verbatim>\<open>parseRunArgs\<close> (src/commands/run.tsx)\<close>

text \<open>
  \<^verbatim>\<open>ExtendedRuntimeOptions\<close>. A value option that was never assigned is \<open>None\<close>. The four
  switches are only ever assigned \<^verbatim>\<open>true\<close>, so \<open>False\<close> stands for the unassigned field.
\<close>

record ExtendedRuntimeOptions =
  epicId :: "string option"
  prdPath :: "string option"
  agent :: "string option"
  model :: "string option"
  tracker :: "string option"
  iterations :: "JsNumber option"
  iterationDelay :: "JsNumber option"
  cwd :: "string option"
  resume :: bool
  force :: bool
  headless :: bool
  noSetup :: bool

definition emptyOptions :: ExtendedRuntimeOptions where
  "emptyOptions = \<lparr> epicId = None, prdPath = None, agent = None, model = None,
     tracker = None, iterations = None, iterationDelay = None, cwd = None,
     resume = False, force = False, headless = False, noSetup = False \<rparr>"

text \<open>
  The body of the \<^verbatim>\<open>switch\<close> for one loop index: the updated options, and whether the
  case ran its \<^verbatim>\<open>i++\<close> (the following token was taken as the value).
\<close>

definition runArgCase ::
  "string \<Rightarrow> string option \<Rightarrow> ExtendedRuntimeOptions \<Rightarrow> ExtendedRuntimeOptions \<times> bool" where
  "runArgCase arg nextArg options =
     (if arg = ''--epic'' then
        (if usableValue nextArg then (options\<lparr>epicId := nextArg\<rparr>, True) else (options, False))
      else if arg = ''--prd'' then
        (if usableValue nextArg then (options\<lparr>prdPath := nextArg\<rparr>, True) else (options, False))
      else if arg = ''--agent'' then
        (if usableValue nextArg then (options\<lparr>agent := nextArg\<rparr>, True) else (options, False))
      else if arg = ''--model'' then
        (if usableValue nextArg then (options\<lparr>model := nextArg\<rparr>, True) else (options, False))
      else if arg = ''--tracker'' then
        (if usableValue nextArg then (options\<lparr>tracker := nextArg\<rparr>, True) else (options, False))
      else if arg = ''--iterations'' then
        (if usableValue nextArg then
           (case parseInt10 (orEmpty nextArg) of
              None \<Rightarrow> (options, True)
            | Some parsed \<Rightarrow> (options\<lparr>iterations := Some parsed\<rparr>, True))
         else (options, False))
      else if arg = ''--delay'' then
        (if usableValue nextArg then
           (case parseInt10 (orEmpty nextArg) of
              None \<Rightarrow> (options, True)
            | Some parsed \<Rightarrow> (options\<lparr>iterationDelay := Some parsed\<rparr>, True))
         else (options, False))
      else if arg = ''--cwd'' then
        (if usableValue nextArg then (options\<lparr>cwd := nextArg\<rparr>, True) else (options, False))
      else if arg = ''--resume'' then (options\<lparr>resume := True\<rparr>, False)
      else if arg = ''--force'' then (options\<lparr>force := True\<rparr>, False)
      else if arg = ''--headless'' \<or> arg = ''--no-tui'' then (options\<lparr>headless := True\<rparr>, False)
      else if arg = ''--no-setup'' then (options\<lparr>noSetup := True\<rparr>, False)
      else (options, False))"

text \<open>The \<^verbatim>\<open>for\<close> loop over the index \<open>i\<close>.\<close>

function parseRunArgsLoop ::
  "string list \<Rightarrow> nat \<Rightarrow> ExtendedRuntimeOptions \<Rightarrow> ExtendedRuntimeOptions" where
  "parseRunArgsLoop args i options =
     (if i < length args then
        (case runArgCase (args ! i) (argAt args (i + 1)) options of
           (options', consumed) \<Rightarrow>
             parseRunArgsLoop args (if consumed then i + 2 else i + 1) options')
      else options)"
  by pat_completeness auto
termination
  by (relation "measure (\<lambda>(args, i, options). length args - i)") auto

definition parseRunArgs :: "string list \<Rightarrow> ExtendedRuntimeOptions" where
  "parseRunArgs args = parseRunArgsLoop args 0 emptyOptions"

text \<open>The flags of \<^verbatim>\<open>parseRunArgs\<close> that take a value, and all the tokens it recognises.\<close>

definition runValueFlags :: "string list" where
  "runValueFlags = [''--epic'', ''--prd'', ''--agent'', ''--model'', ''--tracker'',
     ''--iterations'', ''--delay'', ''--cwd'']"

definition runSwitches :: "string list" where
  "runSwitches = [''--resume'', ''--force'', ''--headless'', ''--no-tui'', ''--no-setup'']"

subsection \<open>\<^verbatim>\<open>parseCreatePrdArgs\<close> (create-prd command)\<close>

record CreatePrdArgs =
  prd_cwd :: "string option"
  prd_output :: "string option"
  prd_stories :: "JsNumber option"
  prd_force :: bool
  prd_agent :: "string option"
  prd_timeout :: "JsNumber option"

definition emptyCreatePrdArgs :: CreatePrdArgs where
  "emptyCreatePrdArgs = \<lparr> prd_cwd = None, prd_output = None, prd_stories = None,
     prd_force = False, prd_agent = None, prd_timeout = None \<rparr>"

text \<open>A function that may end the process: it returns, or calls \<^verbatim>\<open>process.exit(code)\<close>.\<close>

datatype 'a completion = Returns 'a | ProcessExit int

function parseCreatePrdArgsLoop ::
  "string list \<Rightarrow> nat \<Rightarrow> CreatePrdArgs \<Rightarrow> CreatePrdArgs completion" where
  "parseCreatePrdArgsLoop args i result =
     (if i < length args then
        (let arg = args ! i in
         if arg = ''--cwd'' \<or> arg = ''-C'' then
           parseCreatePrdArgsLoop args (i + 2) (result\<lparr>prd_cwd := argAt args (i + 1)\<rparr>)
         else if arg = ''--output'' \<or> arg = ''-o'' then
           parseCreatePrdArgsLoop args (i + 2) (result\<lparr>prd_output := argAt args (i + 1)\<rparr>)
         else if arg = ''--stories'' \<or> arg = ''-n'' then
           (case parseInt10 (orEmpty (argAt args (i + 1))) of
              None \<Rightarrow> parseCreatePrdArgsLoop args (i + 2) result
            | Some count \<Rightarrow>
                parseCreatePrdArgsLoop args (i + 2) (result\<lparr>prd_stories := Some count\<rparr>))
         else if arg = ''--force'' \<or> arg = ''-f'' then
           parseCreatePrdArgsLoop args (i + 1) (result\<lparr>prd_force := True\<rparr>)
         else if arg = ''--agent'' \<or> arg = ''-a'' then
           parseCreatePrdArgsLoop args (i + 2) (result\<lparr>prd_agent := argAt args (i + 1)\<rparr>)
         else if arg = ''--timeout'' \<or> arg = ''-t'' then
           (case parseInt10 (orEmpty (argAt args (i + 1))) of
              None \<Rightarrow> parseCreatePrdArgsLoop args (i + 2) result
            | Some timeout \<Rightarrow>
                parseCreatePrdArgsLoop args (i + 2) (result\<lparr>prd_timeout := Some timeout\<rparr>))
         else if arg = ''--help'' \<or> arg = ''-h'' then ProcessExit 0
         else parseCreatePrdArgsLoop args (i + 1) result)
      else Returns result)"
  by pat_completeness auto
termination
  by (relation "measure (\<lambda>(args, i, result). length args - i)") auto

definition parseCreatePrdArgs :: "string list \<Rightarrow> CreatePrdArgs completion" where
  "parseCreatePrdArgs args = parseCreatePrdArgsLoop args 0 emptyCreatePrdArgs"


section \<open>The run command (src/commands/run.tsx)\<close>

subsection \<open>Session state and its functions (imported from session/index.js)\<close>

datatype SessionStatus = Running | Paused | Interrupted | Completed | Failed

text \<open>
  Modelled from the spec: the type \<^verbatim>\<open>PersistedSessionState\<close> is declared in
  session/index.js, which is not among the sources. The record has the fields of the
  Session of the spec (section 3) that the run command or the session functions below read
  or write; the plugin names, the paths and the task snapshot are carried along unchanged by
  all of them and are left out. Time stamps are clock readings in milliseconds.
\<close>

record PersistedSessionState =
  sessionId :: string
  status :: SessionStatus
  updatedAt :: int
  currentIteration :: nat
  tasksCompleted :: nat
  totalTasks :: nat
  isPaused :: bool
  pausedAt :: "int option"
  lastError :: "string option"

record TrackerTask =
  taskId :: string
  taskTitle :: string

record IterationResult =
  iteration :: nat
  task :: TrackerTask
  taskCompleted :: bool
  durationMs :: nat
  error :: "string option"

text \<open>
  Modelled from the spec: \<^verbatim>\<open>createPersistedSession\<close> (session/index.js) is the \<open>create\<close> of
  the spec (section 4.8): it snapshots the tracker's task list and initialises the counters.
\<close>

definition createPersistedSession :: "int \<Rightarrow> string \<Rightarrow> TrackerTask list \<Rightarrow> PersistedSessionState" where
  "createPersistedSession now sid tasks =
     \<lparr> sessionId = sid, status = Running, updatedAt = now, currentIteration = 0,
       tasksCompleted = 0, totalTasks = length tasks, isPaused = False, pausedAt = None,
       lastError = None \<rparr>"

text \<open>
  Modelled from the spec: \<^verbatim>\<open>updateSessionAfterIteration\<close> (session/index.js) is the \<open>fold\<close>
  of the spec (section 4.8): it increments \<open>current_iteration\<close>, increments
  \<open>tasks_completed\<close> if the result completed a task, updates \<open>updated_at\<close>, and clears
  \<open>last_error\<close> on success or sets it on failure.
\<close>

definition updateSessionAfterIteration ::
  "int \<Rightarrow> PersistedSessionState \<Rightarrow> IterationResult \<Rightarrow> PersistedSessionState" where
  "updateSessionAfterIteration now s r =
     s\<lparr> currentIteration := currentIteration s + 1,
        tasksCompleted := (if taskCompleted r then tasksCompleted s + 1 else tasksCompleted s),
        updatedAt := now,
        lastError := error r \<rparr>"

text \<open>
  Modelled from the spec: \<^verbatim>\<open>pauseSession\<close>, \<^verbatim>\<open>completeSession\<close> and \<^verbatim>\<open>failSession\<close>
  (session/index.js) move the session to the status of their name (spec, section 3);
  pausing also sets \<open>is_paused\<close> and records \<open>paused_at\<close>.
\<close>

definition pauseSession :: "int \<Rightarrow> PersistedSessionState \<Rightarrow> PersistedSessionState" where
  "pauseSession now s = s\<lparr> status := Paused, isPaused := True, pausedAt := Some now \<rparr>"

definition completeSession :: "PersistedSessionState \<Rightarrow> PersistedSessionState" where
  "completeSession s = s\<lparr> status := Completed \<rparr>"

definition failSession :: "PersistedSessionState \<Rightarrow> PersistedSessionState" where
  "failSession s = s\<lparr> status := Failed \<rparr>"

text \<open>
  Modelled from the spec: \<^verbatim>\<open>isSessionResumable\<close> (session/index.js) is the \<open>resumable\<close> of
  the spec (section 4.8): the status is running, paused or interrupted, and not all tasks
  are completed.
\<close>

definition isSessionResumable :: "PersistedSessionState \<Rightarrow> bool" where
  "isSessionResumable s =
     (status s \<in> {Running, Paused, Interrupted} \<and> tasksCompleted s < totalTasks s)"

subsection \<open>The session file and the effects of a run\<close>

text \<open>
  Modelled from the spec: the session store (section 4.2) keeps one file per working
  directory. \<^verbatim>\<open>hasPersistedSession\<close> tells whether it exists, \<^verbatim>\<open>loadPersistedSession\<close>
  returns its snapshot or \<^verbatim>\<open>null\<close>.
\<close>

datatype SessionFile = NoFile | Unreadable | Snapshot PersistedSessionState

definition hasPersistedSession :: "SessionFile \<Rightarrow> bool" where
  "hasPersistedSession f = (f \<noteq> NoFile)"

definition loadPersistedSession :: "SessionFile \<Rightarrow> PersistedSessionState option" where
  "loadPersistedSession f = (case f of Snapshot s \<Rightarrow> Some s | _ \<Rightarrow> None)"

text \<open>
  What a run does to the world outside, in order: console and logger output (the text or
  the logger method only), calls of the session store, the lock manager, the engine and the
  renderer. \<open>SaveSession s ok\<close> is a call \<^verbatim>\<open>savePersistedSession(s)\<close> and whether it
  succeeded.
\<close>

datatype effect =
    Console string
  | ConsoleError string
  | Logger string
  | PrintRunHelp
  | RunSetupWizard
  | InitializePlugins
  | SaveSession PersistedSessionState bool
  | DeleteSession
  | AcquireLock bool
  | RegisterLockCleanup
  | ReleaseLock
  | RemoveLockCleanup
  | ResumeSession
  | CreateSession
  | EndSession string
  | EngineInitialize bool
  | EngineStart
  | EngineDispose
  | CreateRenderer
  | RenderTui
  | InterruptDispose
  | RendererDestroy

fun isSave :: "effect \<Rightarrow> bool" where
  "isSave (SaveSession s ok) = True"
| "isSave _ = False"

definition saveCount :: "effect list \<Rightarrow> nat" where
  "saveCount tr = length (filter isSave tr)"

text \<open>
  Modelled from the spec: \<^verbatim>\<open>savePersistedSession\<close> and \<^verbatim>\<open>deletePersistedSession\<close>
  (session/index.js) are \<open>save\<close> and \<open>delete\<close> of the session store (section 4.2). A
  save is atomic: when it fails the previous content stays. Whether the \<open>k\<close>-th save of a
  run succeeds is given from outside, by \<open>saveOk k\<close>.
\<close>

definition saveSucceeds :: "(nat \<Rightarrow> bool) \<Rightarrow> effect list \<Rightarrow> bool" where
  "saveSucceeds saveOk tr = saveOk (saveCount tr)"

definition savePersistedSession ::
  "(nat \<Rightarrow> bool) \<Rightarrow> PersistedSessionState \<Rightarrow> effect list \<Rightarrow> effect list" where
  "savePersistedSession saveOk s tr = tr @ [SaveSession s (saveSucceeds saveOk tr)]"

fun applyEffect :: "SessionFile \<Rightarrow> effect \<Rightarrow> SessionFile" where
  "applyEffect f (SaveSession s ok) = (if ok then Snapshot s else f)"
| "applyEffect f DeleteSession = NoFile"
| "applyEffect f _ = f"

definition fileAfter :: "SessionFile \<Rightarrow> effect list \<Rightarrow> SessionFile" where
  "fileAfter f tr = foldl applyEffect f tr"

text \<open>
  How a run ends: the command returns, \<^verbatim>\<open>process.exit(code)\<close> is called, a promise is
  rejected with nothing to catch it (what the process does then is the runtime's choice),
  or the TUI waits for a quit that never comes.
\<close>

datatype Outcome = Returned | Exited int | Rejected | AwaitingQuit

subsection \<open>Engine events and the inputs of a running session\<close>

datatype Stream = Stdout | Stderr

datatype EngineEvent =
    EngineStarted nat
  | IterationStarted nat TrackerTask
  | IterationCompleted IterationResult
  | IterationFailed nat TrackerTask string string
  | IterationRetrying nat TrackerTask nat nat nat
  | IterationSkipped nat string string
  | AgentOutput Stream string
  | TaskSelected TrackerTask nat
  | EnginePaused nat
  | EngineResumed nat
  | EngineStopped string nat nat
  | AllComplete nat nat
  | TaskCompleted string nat

text \<open>
  What can reach the process while the engine runs: an event the engine emits, a signal,
  or (TUI only) one of the callbacks the interrupt handler and the application invoke:
  \<^verbatim>\<open>onQuit\<close>, \<^verbatim>\<open>onConfirmed\<close>/\<^verbatim>\<open>onInterruptConfirmed\<close>, \<^verbatim>\<open>onForceQuit\<close>. Every input comes
  with the clock reading (\<^verbatim>\<open>Date.now()\<close>) at which it is handled.
\<close>

datatype Input =
    Emit EngineEvent
  | SIGINT
  | SIGTERM
  | QuitRequested
  | InterruptConfirmed
  | ForceQuitRequested

text \<open>
  The variables the handlers of one run close over: \<^verbatim>\<open>currentState\<close>, \<^verbatim>\<open>lastSigintTime\<close>,
  the effects so far, and, once a graceful shutdown of the headless mode has issued its save
  and is waiting at its \<^verbatim>\<open>await\<close>, whether that save succeeds.
\<close>

record RunState =
  currentState :: PersistedSessionState
  lastSigintTime :: int
  pendingShutdown :: "bool option"
  trace :: "effect list"

definition DOUBLE_PRESS_WINDOW_MS :: int where
  "DOUBLE_PRESS_WINDOW_MS = 1000"

subsection \<open>\<^verbatim>\<open>runHeadless\<close>\<close>

text \<open>The subscriber of \<^verbatim>\<open>engine.on\<close> in \<^verbatim>\<open>runHeadless\<close>.\<close>

fun headlessOnEvent :: "(nat \<Rightarrow> bool) \<Rightarrow> int \<Rightarrow> EngineEvent \<Rightarrow> RunState \<Rightarrow> RunState" where
  "headlessOnEvent saveOk now (EngineStarted n) rs =
     rs\<lparr>trace := trace rs @ [Logger ''engineStarted'']\<rparr>"
| "headlessOnEvent saveOk now (IterationStarted i t) rs =
     rs\<lparr>trace := trace rs @ [Logger ''progress'']\<rparr>"
| "headlessOnEvent saveOk now (IterationCompleted result) rs =
     (let tr1 = trace rs @ [Logger ''iterationComplete''];
          tr2 = (if taskCompleted result then tr1 @ [Logger ''taskCompleted''] else tr1);
          s = updateSessionAfterIteration now (currentState rs) result
      in rs\<lparr>currentState := s, trace := savePersistedSession saveOk s tr2\<rparr>)"
| "headlessOnEvent saveOk now (IterationFailed i t err action) rs =
     rs\<lparr>trace := trace rs @ [Logger ''iterationFailed'']\<rparr>"
| "headlessOnEvent saveOk now (IterationRetrying i t attempt maxRetries delayMs) rs =
     rs\<lparr>trace := trace rs @ [Logger ''iterationRetrying'']\<rparr>"
| "headlessOnEvent saveOk now (IterationSkipped i tid reason) rs =
     rs\<lparr>trace := trace rs @ [Logger ''iterationSkipped'']\<rparr>"
| "headlessOnEvent saveOk now (AgentOutput stream d) rs =
     (if stream = Stdout then rs\<lparr>trace := trace rs @ [Logger ''agentOutput'']\<rparr>
      else rs\<lparr>trace := trace rs @ [Logger ''agentError'']\<rparr>)"
| "headlessOnEvent saveOk now (TaskSelected t i) rs =
     rs\<lparr>trace := trace rs @ [Logger ''taskSelected'']\<rparr>"
| "headlessOnEvent saveOk now (EnginePaused i) rs =
     (let tr1 = trace rs @ [Logger ''enginePaused''];
          s = pauseSession now (currentState rs)
      in rs\<lparr>currentState := s, trace := savePersistedSession saveOk s tr1\<rparr>)"
| "headlessOnEvent saveOk now (EngineResumed i) rs =
     (let tr1 = trace rs @ [Logger ''engineResumed''];
          s = (currentState rs)\<lparr>status := Running, isPaused := False, pausedAt := None\<rparr>
      in rs\<lparr>currentState := s, trace := savePersistedSession saveOk s tr1\<rparr>)"
| "headlessOnEvent saveOk now (EngineStopped reason totalIterations completed) rs =
     rs\<lparr>trace := trace rs @ [Logger ''engineStopped'']\<rparr>"
| "headlessOnEvent saveOk now (AllComplete totalCompleted totalIterations) rs =
     rs\<lparr>trace := trace rs @ [Logger ''allComplete'']\<rparr>"
| "headlessOnEvent saveOk now (TaskCompleted tid i) rs = rs"

text \<open>
  \<^verbatim>\<open>gracefulShutdown\<close> and \<^verbatim>\<open>handleSigterm\<close> of \<^verbatim>\<open>runHeadless\<close>, up to their first
  \<^verbatim>\<open>await\<close>: the log lines, the status \<open>interrupted\<close>, and the call of the save. What
  follows the \<^verbatim>\<open>await\<close>s is \<open>completeShutdown\<close>. When a shutdown is already waiting,
  it is the one that completes first.
\<close>

definition beginShutdown :: "(nat \<Rightarrow> bool) \<Rightarrow> effect list \<Rightarrow> RunState \<Rightarrow> RunState" where
  "beginShutdown saveOk logs rs =
     (let tr1 = trace rs @ logs;
          s = (currentState rs)\<lparr>status := Interrupted\<rparr>
      in rs\<lparr>currentState := s,
            pendingShutdown := (case pendingShutdown rs of
                                  None \<Rightarrow> Some (saveSucceeds saveOk tr1)
                                | Some ok \<Rightarrow> Some ok),
            trace := savePersistedSession saveOk s tr1\<rparr>)"

definition gracefulShutdown :: "(nat \<Rightarrow> bool) \<Rightarrow> RunState \<Rightarrow> RunState" where
  "gracefulShutdown saveOk rs =
     beginShutdown saveOk
       [Logger ''info system: Interrupted, stopping gracefully...'',
        Logger ''info system: (Press Ctrl+C again within 1s to force quit)''] rs"

definition handleSigterm :: "(nat \<Rightarrow> bool) \<Rightarrow> RunState \<Rightarrow> RunState" where
  "handleSigterm saveOk rs =
     beginShutdown saveOk [Logger ''info system: Received SIGTERM, stopping gracefully...''] rs"

text \<open>
  The rest of a graceful shutdown: a failed save rejects the handler's promise; otherwise
  \<^verbatim>\<open>engine.dispose()\<close> and \<^verbatim>\<open>process.exit(0)\<close>.
\<close>

definition completeShutdown :: "bool \<Rightarrow> effect list \<Rightarrow> Outcome \<times> effect list" where
  "completeShutdown ok tr = (if ok then (Exited 0, tr @ [EngineDispose]) else (Rejected, tr))"

definition forceQuitLog :: effect where
  "forceQuitLog = Logger ''warn system: Force quit!''"

definition handleSigint :: "(nat \<Rightarrow> bool) \<Rightarrow> int \<Rightarrow> RunState \<Rightarrow> Outcome option \<times> RunState" where
  "handleSigint saveOk now rs =
     (let timeSinceLastSigint = now - lastSigintTime rs;
          rs1 = rs\<lparr>lastSigintTime := now\<rparr>
      in if timeSinceLastSigint < DOUBLE_PRESS_WINDOW_MS
         then (Some (Exited 1), rs1\<lparr>trace := trace rs1 @ [forceQuitLog]\<rparr>)
         else (None, gracefulShutdown saveOk rs1))"

text \<open>One input of a headless run. The TUI callbacks do not exist in this mode.\<close>

fun headlessStep :: "(nat \<Rightarrow> bool) \<Rightarrow> int \<times> Input \<Rightarrow> RunState \<Rightarrow> Outcome option \<times> RunState" where
  "headlessStep saveOk (now, Emit e) rs = (None, headlessOnEvent saveOk now e rs)"
| "headlessStep saveOk (now, SIGINT) rs = handleSigint saveOk now rs"
| "headlessStep saveOk (now, SIGTERM) rs = (None, handleSigterm saveOk rs)"
| "headlessStep saveOk (now, QuitRequested) rs = (None, rs)"
| "headlessStep saveOk (now, InterruptConfirmed) rs = (None, rs)"
| "headlessStep saveOk (now, ForceQuitRequested) rs = (None, rs)"

fun headlessInputs ::
  "(nat \<Rightarrow> bool) \<Rightarrow> (int \<times> Input) list \<Rightarrow> RunState \<Rightarrow> Outcome option \<times> RunState" where
  "headlessInputs saveOk [] rs = (None, rs)"
| "headlessInputs saveOk (x # xs) rs =
     (case headlessStep saveOk x rs of
        (Some out, rs') \<Rightarrow> (Some out, rs')
      | (None, rs') \<Rightarrow> headlessInputs saveOk xs rs')"

text \<open>
  What a run function hands back to \<^verbatim>\<open>executeRunCommand\<close>: the final state, an exception,
  or nothing, because the process ended inside it.
\<close>

datatype RunResult = RunReturns PersistedSessionState | RunThrows | RunEnds Outcome

text \<open>
  \<^verbatim>\<open>runHeadless\<close>. \<open>inputs\<close> are the inputs that arrive while \<^verbatim>\<open>engine.start()\<close> is
  pending and, once a graceful shutdown has begun, until its \<^verbatim>\<open>await\<close>s complete;
  \<open>engineStartReturns\<close> tells whether \<^verbatim>\<open>engine.start()\<close> then returns or throws.
  \<open>headlessFrom\<close> is the run from a given state of the handlers' variables on.
\<close>

definition headlessFrom ::
  "(nat \<Rightarrow> bool) \<Rightarrow> bool \<Rightarrow> (int \<times> Input) list \<Rightarrow> RunState \<Rightarrow> RunResult \<times> effect list" where
  "headlessFrom saveOk engineStartReturns inputs rs0 =
     (case headlessInputs saveOk inputs rs0 of
        (Some out, rs) \<Rightarrow> (RunEnds out, trace rs)
      | (None, rs) \<Rightarrow>
          (case pendingShutdown rs of
             Some ok \<Rightarrow> (case completeShutdown ok (trace rs) of (out, tr) \<Rightarrow> (RunEnds out, tr))
           | None \<Rightarrow>
               if engineStartReturns then (RunReturns (currentState rs), trace rs @ [EngineDispose])
               else (RunThrows, trace rs)))"

definition runHeadless ::
  "(nat \<Rightarrow> bool) \<Rightarrow> bool \<Rightarrow> (int \<times> Input) list \<Rightarrow> PersistedSessionState \<Rightarrow> effect list
     \<Rightarrow> RunResult \<times> effect list" where
  "runHeadless saveOk engineStartReturns inputs persistedState tr0 =
     headlessFrom saveOk engineStartReturns inputs
       \<lparr> currentState = persistedState, lastSigintTime = 0, pendingShutdown = None,
         trace = tr0 @ [Logger ''sessionCreated'', EngineStart] \<rparr>"

subsection \<open>\<^verbatim>\<open>runWithTui\<close>\<close>

text \<open>The subscriber of \<^verbatim>\<open>engine.on\<close> in \<^verbatim>\<open>runWithTui\<close>: three event types, no output.\<close>

fun tuiOnEvent :: "(nat \<Rightarrow> bool) \<Rightarrow> int \<Rightarrow> EngineEvent \<Rightarrow> RunState \<Rightarrow> RunState" where
  "tuiOnEvent saveOk now (IterationCompleted result) rs =
     (let s = updateSessionAfterIteration now (currentState rs) result
      in rs\<lparr>currentState := s, trace := savePersistedSession saveOk s (trace rs)\<rparr>)"
| "tuiOnEvent saveOk now (EnginePaused i) rs =
     (let s = pauseSession now (currentState rs)
      in rs\<lparr>currentState := s, trace := savePersistedSession saveOk s (trace rs)\<rparr>)"
| "tuiOnEvent saveOk now (EngineResumed i) rs =
     (let s = (currentState rs)\<lparr>status := Running, isPaused := False, pausedAt := None\<rparr>
      in rs\<lparr>currentState := s, trace := savePersistedSession saveOk s (trace rs)\<rparr>)"
| "tuiOnEvent saveOk now e rs = rs"

datatype TuiStep = TuiContinue | TuiQuit | TuiEnd Outcome

text \<open>
  \<^verbatim>\<open>gracefulShutdown\<close> of \<^verbatim>\<open>runWithTui\<close>: save the current state, clean up, and resolve the
  quit promise if it exists already (\<open>waiting\<close>: \<^verbatim>\<open>engine.start()\<close> has returned).
\<close>

definition tuiGracefulShutdown :: "(nat \<Rightarrow> bool) \<Rightarrow> bool \<Rightarrow> RunState \<Rightarrow> TuiStep \<times> RunState" where
  "tuiGracefulShutdown saveOk waiting rs =
     (let ok = saveSucceeds saveOk (trace rs);
          tr1 = savePersistedSession saveOk (currentState rs) (trace rs)
      in if \<not> ok then (TuiEnd Rejected, rs\<lparr>trace := tr1\<rparr>)
         else (if waiting then TuiQuit else TuiContinue,
               rs\<lparr>trace := tr1 @ [InterruptDispose, RendererDestroy]\<rparr>))"

text \<open>
  One input of a TUI run. \<^verbatim>\<open>forceQuit\<close> is \<^verbatim>\<open>process.exit(1)\<close>. Ctrl+C is not handled by
  the run command here (\<^verbatim>\<open>exitOnCtrlC: false\<close>): the interrupt handler answers it through
  the callbacks.
\<close>

fun tuiStep :: "(nat \<Rightarrow> bool) \<Rightarrow> bool \<Rightarrow> int \<times> Input \<Rightarrow> RunState \<Rightarrow> TuiStep \<times> RunState" where
  "tuiStep saveOk waiting (now, Emit e) rs = (TuiContinue, tuiOnEvent saveOk now e rs)"
| "tuiStep saveOk waiting (now, SIGINT) rs = (TuiContinue, rs)"
| "tuiStep saveOk waiting (now, SIGTERM) rs = tuiGracefulShutdown saveOk waiting rs"
| "tuiStep saveOk waiting (now, QuitRequested) rs = tuiGracefulShutdown saveOk waiting rs"
| "tuiStep saveOk waiting (now, InterruptConfirmed) rs = tuiGracefulShutdown saveOk waiting rs"
| "tuiStep saveOk waiting (now, ForceQuitRequested) rs = (TuiEnd (Exited 1), rs)"

fun tuiInputs ::
  "(nat \<Rightarrow> bool) \<Rightarrow> bool \<Rightarrow> (int \<times> Input) list \<Rightarrow> RunState \<Rightarrow> TuiStep \<times> RunState" where
  "tuiInputs saveOk waiting [] rs = (TuiContinue, rs)"
| "tuiInputs saveOk waiting (x # xs) rs =
     (case tuiStep saveOk waiting x rs of
        (TuiContinue, rs') \<Rightarrow> tuiInputs saveOk waiting xs rs'
      | (r, rs') \<Rightarrow> (r, rs'))"

text \<open>
  \<^verbatim>\<open>runWithTui\<close>. \<open>inputs\<close> arrive while \<^verbatim>\<open>engine.start()\<close> is pending, \<open>inputsAfter\<close>
  while the TUI stays open after the engine has stopped.
\<close>

definition runWithTui ::
  "(nat \<Rightarrow> bool) \<Rightarrow> bool \<Rightarrow> (int \<times> Input) list \<Rightarrow> (int \<times> Input) list
     \<Rightarrow> PersistedSessionState \<Rightarrow> effect list \<Rightarrow> RunResult \<times> effect list" where
  "runWithTui saveOk engineStartReturns inputs inputsAfter persistedState tr0 =
     (let rs0 = \<lparr> currentState = persistedState, lastSigintTime = 0, pendingShutdown = None,
                  trace = tr0 @ [CreateRenderer, RenderTui, EngineStart] \<rparr>
      in case tuiInputs saveOk False inputs rs0 of
           (TuiEnd out, rs) \<Rightarrow> (RunEnds out, trace rs)
         | (_, rs) \<Rightarrow>
             if \<not> engineStartReturns then (RunThrows, trace rs)
             else (case tuiInputs saveOk True inputsAfter rs of
                     (TuiEnd out, rs') \<Rightarrow> (RunEnds out, trace rs')
                   | (TuiQuit, rs') \<Rightarrow> (RunReturns (currentState rs'), trace rs')
                   | (TuiContinue, rs') \<Rightarrow> (RunEnds AwaitingQuit, trace rs')))"

subsection \<open>The lock manager (imported from session/index.js)\<close>

record Lock =
  pid :: nat
  lockSessionId :: string
  acquiredAt :: int
  host :: string

record LockResult =
  acquired :: bool
  existingPid :: "nat option"

text \<open>
  Modelled from the spec: \<^verbatim>\<open>acquireLockWithPrompt\<close> (session/index.js) is the \<open>acquire\<close>
  of the lock manager (section 4.3). A lock file naming a pid that does not exist is stale
  and is taken over without \<open>force\<close>; when the holder is live, acquisition fails with a
  conflict unless \<open>force\<close> is set. In non-interactive mode the conflict is a hard error; in
  interactive mode the user may be prompted, and the acquisition has failed all the same.
\<close>

definition acquireLockWithPrompt :: "Lock option \<Rightarrow> nat list \<Rightarrow> bool \<Rightarrow> bool \<Rightarrow> LockResult" where
  "acquireLockWithPrompt lockFile livePids forceOpt nonInteractive =
     (case lockFile of
        None \<Rightarrow> \<lparr> acquired = True, existingPid = None \<rparr>
      | Some holder \<Rightarrow>
          if pid holder \<notin> set livePids then \<lparr> acquired = True, existingPid = None \<rparr>
          else if forceOpt then \<lparr> acquired = True, existingPid = None \<rparr>
          else \<lparr> acquired = False, existingPid = Some (pid holder) \<rparr>)"

subsection \<open>\<^verbatim>\<open>executeRunCommand\<close> and its surroundings\<close>

text \<open>
  The configuration built by \<^verbatim>\<open>buildConfig\<close> (config/index.js, not among the sources), as
  far as the run command reads it.
\<close>

record RalphConfig =
  configCwd :: string
  showTui :: bool
  maxIterations :: nat
  agentPlugin :: string
  trackerPlugin :: string
  configEpicId :: "string option"
  configPrdPath :: "string option"

datatype SetupResult = SetupSucceeded | SetupCancelled | SetupFailed

text \<open>The engine's own state, read once at the end through \<^verbatim>\<open>engine.getState()\<close>.\<close>

datatype EngineStatus = EngineIdle | EngineRunning | EnginePausedStatus | EngineStopping | EngineStoppedStatus

record EngineState =
  engineTasksCompleted :: nat
  engineTotalTasks :: nat
  engineStatus :: EngineStatus

text \<open>
  Everything the run command is told by code that is not among the sources, and by the
  outside: the answers of the configuration, setup, session, lock, tracker and engine
  functions it calls, the session file and the lock file it finds, the clock, whether each
  save succeeds, and the inputs that arrive while the engine runs. Three kinds of call can
  fail here: a save, the initialisation of the engine with the reading of the tasks, and
  \<^verbatim>\<open>engine.start()\<close>; every other call is taken to return. \<^verbatim>\<open>endSession\<close> is taken not
  to touch the session file.
\<close>

record Env =
  projectConfigExists :: bool
  runSetupWizard :: SetupResult
  buildConfig :: "ExtendedRuntimeOptions \<Rightarrow> RalphConfig option"
  validationValid :: bool
  validationWarnings :: "string list"
  checkHasSession :: bool
  checkIsLocked :: bool
  checkIsStale :: bool
  sessionFile :: SessionFile
  lockFile :: "Lock option"
  livePids :: "nat list"
  resumedSessionId :: "string option"
  createdSessionId :: string
  engineInitializes :: bool
  trackerTasks :: "TrackerTask list"
  startTime :: int
  saveOk :: "nat \<Rightarrow> bool"
  engineStartReturns :: bool
  inputs :: "(int \<times> Input) list"
  inputsAfterStop :: "(int \<times> Input) list"
  finalEngineState :: EngineState

datatype ResumeChoice = ChooseResume | ChooseNew | ChooseAbort

text \<open>\<^verbatim>\<open>promptResumeOrNew\<close>. The summary it prints is one \<open>Console\<close> effect.\<close>

definition promptResumeOrNew :: "Env \<Rightarrow> ResumeChoice \<times> effect list" where
  "promptResumeOrNew env =
     (if \<not> hasPersistedSession (sessionFile env) then (ChooseNew, [])
      else case loadPersistedSession (sessionFile env) of
             None \<Rightarrow> (ChooseNew, [])
           | Some persistedState \<Rightarrow>
               (let banner = [Console ''Existing Session Found''] in
                if checkIsLocked env \<and> \<not> checkIsStale env then
                  (ChooseAbort,
                   banner @ [Console ''WARNING: Session is currently locked by another process.'',
                             Console ''Cannot start while another instance is running.''])
                else if isSessionResumable persistedState then
                  (ChooseNew,
                   banner @ [Console ''This session can be resumed.'',
                             Console ''Starting fresh session...''])
                else
                  (ChooseNew,
                   banner @ [Console ''This session has completed and cannot be resumed.'',
                             Console ''Starting fresh session...''])))"

text \<open>
  \<^verbatim>\<open>executeRunCommand\<close>, in the order of the source, cut into its stages. Each stage takes
  the effects so far and gives the outcome of the command with all its effects.
\<close>

text \<open>After the run function has returned: \<^verbatim>\<open>allComplete\<close>, the last save, the clean-up.\<close>

definition allComplete :: "EngineState \<Rightarrow> bool" where
  "allComplete finalState =
     (engineTasksCompleted finalState \<ge> engineTotalTasks finalState
      \<or> engineStatus finalState = EngineIdle)"

definition finishRun :: "Env \<Rightarrow> PersistedSessionState \<Rightarrow> effect list \<Rightarrow> Outcome \<times> effect list" where
  "finishRun env persistedState tr =
     (if allComplete (finalEngineState env) then
        (let completed = completeSession persistedState;
             ok = saveSucceeds (saveOk env) tr;
             tr1 = savePersistedSession (saveOk env) completed tr
         in if \<not> ok then (Rejected, tr1)
            else (Returned,
                  tr1 @ [DeleteSession,
                         Console ''Session completed successfully. Session file cleaned up.'',
                         EndSession ''completed'', ReleaseLock, RemoveLockCleanup,
                         Console ''Ralph TUI finished.'']))
      else
        (let ok = saveSucceeds (saveOk env) tr;
             tr1 = savePersistedSession (saveOk env) persistedState tr
         in if \<not> ok then (Rejected, tr1)
            else (Returned,
                  tr1 @ [Console ''Session state saved. Use ralph-tui resume to continue.'',
                         EndSession ''interrupted'', ReleaseLock, RemoveLockCleanup,
                         Console ''Ralph TUI finished.''])))"

text \<open>
  The \<^verbatim>\<open>try\<close> around the run function. In the \<^verbatim>\<open>catch\<close>, \<^verbatim>\<open>persistedState\<close> is still the
  state from before the run: the assignment did not happen.
\<close>

definition runSession ::
  "Env \<Rightarrow> RalphConfig \<Rightarrow> PersistedSessionState \<Rightarrow> effect list \<Rightarrow> Outcome \<times> effect list" where
  "runSession env config persistedState tr =
     (case (if showTui config
            then runWithTui (saveOk env) (engineStartReturns env) (inputs env)
                   (inputsAfterStop env) persistedState tr
            else runHeadless (saveOk env) (engineStartReturns env) (inputs env)
                   persistedState tr) of
        (RunReturns finalPersisted, tr1) \<Rightarrow> finishRun env finalPersisted tr1
      | (RunEnds out, tr1) \<Rightarrow> (out, tr1)
      | (RunThrows, tr1) \<Rightarrow>
          (let tr2 = tr1 @ [ConsoleError ''Execution error:''];
               failed = failSession persistedState;
               ok = saveSucceeds (saveOk env) tr2;
               tr3 = savePersistedSession (saveOk env) failed tr2
           in if \<not> ok then (Rejected, tr3)
              else (Exited 1, tr3 @ [EndSession ''failed'', ReleaseLock, RemoveLockCleanup])))"

text \<open>Engine creation and initialisation, the initial snapshot and its save.\<close>

definition startEngine ::
  "Env \<Rightarrow> RalphConfig \<Rightarrow> string \<Rightarrow> effect list \<Rightarrow> Outcome \<times> effect list" where
  "startEngine env config sid tr =
     (let tr1 = tr @ [Console ''Session, agent, tracker, max iterations''] in
      if \<not> engineInitializes env then
        (Exited 1,
         tr1 @ [EngineInitialize False, ConsoleError ''Failed to initialize engine:'',
                EndSession ''failed'', ReleaseLock, RemoveLockCleanup])
      else
        (let tr2 = tr1 @ [EngineInitialize True];
             persistedState = createPersistedSession (startTime env) sid (trackerTasks env);
             ok = saveSucceeds (saveOk env) tr2;
             tr3 = savePersistedSession (saveOk env) persistedState tr2
         in if \<not> ok then (Rejected, tr3)
            else runSession env config persistedState tr3))"

text \<open>Resume the previous session or create a new one.\<close>

definition openSession ::
  "Env \<Rightarrow> ExtendedRuntimeOptions \<Rightarrow> RalphConfig \<Rightarrow> effect list \<Rightarrow> Outcome \<times> effect list" where
  "openSession env options config tr =
     (if resume options \<and> checkHasSession env then
        (let tr1 = tr @ [Console ''Resuming previous session...'', ResumeSession] in
         case resumedSessionId env of
           None \<Rightarrow>
             (Exited 1,
              tr1 @ [ConsoleError ''Failed to resume session'', ReleaseLock, RemoveLockCleanup])
         | Some sid \<Rightarrow> startEngine env config sid tr1)
      else startEngine env config (createdSessionId env) (tr @ [CreateSession]))"

text \<open>Lock acquisition.\<close>

definition takeLock ::
  "Env \<Rightarrow> ExtendedRuntimeOptions \<Rightarrow> RalphConfig \<Rightarrow> effect list \<Rightarrow> Outcome \<times> effect list" where
  "takeLock env options config tr =
     (let lockResult = acquireLockWithPrompt (lockFile env) (livePids env) (force options)
                         (headless options)
      in if \<not> acquired lockResult then
           (Exited 1,
            tr @ [AcquireLock False, ConsoleError ''Error: lock not acquired'']
               @ (if existingPid lockResult \<noteq> None
                  then [ConsoleError ''  Use --force to override.''] else []))
         else openSession env options config (tr @ [AcquireLock True, RegisterLockCleanup]))"

text \<open>The prompt over an existing session file, before the lock is taken.\<close>

definition checkPersisted ::
  "Env \<Rightarrow> ExtendedRuntimeOptions \<Rightarrow> RalphConfig \<Rightarrow> effect list \<Rightarrow> Outcome \<times> effect list" where
  "checkPersisted env options config tr =
     (if hasPersistedSession (sessionFile env) \<and> \<not> force options \<and> \<not> resume options then
        (case promptResumeOrNew env of
           (ChooseAbort, printed) \<Rightarrow> (Exited 1, tr @ printed)
         | (ChooseNew, printed) \<Rightarrow> takeLock env options config (tr @ printed @ [DeleteSession])
         | (ChooseResume, printed) \<Rightarrow> takeLock env options config (tr @ printed))
      else takeLock env options config tr)"

text \<open>Plugins, configuration and its validation.\<close>

definition configure ::
  "Env \<Rightarrow> ExtendedRuntimeOptions \<Rightarrow> effect list \<Rightarrow> Outcome \<times> effect list" where
  "configure env options tr =
     (let tr1 = tr @ [Console ''Initializing Ralph TUI...'', InitializePlugins] in
      case buildConfig env options of
        None \<Rightarrow> (Exited 1, tr1)
      | Some config \<Rightarrow>
          if \<not> validationValid env then (Exited 1, tr1 @ [ConsoleError ''Configuration errors:''])
          else checkPersisted env options config
                 (tr1 @ map (\<lambda>w. Console (''Warning: '' @ w)) (validationWarnings env)))"

definition executeRunCommand :: "Env \<Rightarrow> string list \<Rightarrow> Outcome \<times> effect list" where
  "executeRunCommand env args =
     (if ''--help'' \<in> set args \<or> ''-h'' \<in> set args then (Returned, [PrintRunHelp])
      else
        (let options = parseRunArgs args in
         if \<not> projectConfigExists env \<and> \<not> noSetup options then
           (let tr = [Console ''No .ralph-tui.yaml configuration found in this project.'',
                      RunSetupWizard] in
            case runSetupWizard env of
              SetupCancelled \<Rightarrow>
                (Returned, tr @ [Console ''Run ralph-tui setup to configure later''])
            | SetupFailed \<Rightarrow> (Exited 1, tr @ [ConsoleError ''Setup failed:''])
            | SetupSucceeded \<Rightarrow>
                configure env options (tr @ [Console ''Setup complete! Starting Ralph...'']))
         else if \<not> projectConfigExists env \<and> noSetup options then
           configure env options
             [Console ''No .ralph-tui.yaml found. Using default configuration.'']
         else configure env options []))"

subsection \<open>Vocabulary for the properties\<close>

text \<open>The effects that the run functions and their handlers can produce.\<close>

fun runEffect :: "effect \<Rightarrow> bool" where
  "runEffect (Logger m) = True"
| "runEffect (SaveSession s ok) = True"
| "runEffect EngineStart = True"
| "runEffect EngineDispose = True"
| "runEffect CreateRenderer = True"
| "runEffect RenderTui = True"
| "runEffect InterruptDispose = True"
| "runEffect RendererDestroy = True"
| "runEffect _ = False"

fun isEmit :: "Input \<Rightarrow> bool" where
  "isEmit (Emit e) = True"
| "isEmit _ = False"

text \<open>The events on which the subscribers of both modes update and save the state.\<close>

fun persistsOn :: "EngineEvent \<Rightarrow> bool" where
  "persistsOn (IterationCompleted result) = True"
| "persistsOn (EnginePaused i) = True"
| "persistsOn (EngineResumed i) = True"
| "persistsOn _ = False"


text \<open>A saved snapshot with status \<open>interrupted\<close>.\<close>

fun savedInterrupted :: "effect \<Rightarrow> bool" where
  "savedInterrupted (SaveSession s ok) = (ok \<and> status s = Interrupted)"
| "savedInterrupted _ = False"

text \<open>
  The effects that tell how a run went: a refused lock, a failed engine initialisation, the
  force-quit warning, the report of an execution error, the end of the session.
\<close>

fun isMarker :: "effect \<Rightarrow> bool" where
  "isMarker (AcquireLock got) = (\<not> got)"
| "isMarker (EngineInitialize done) = (\<not> done)"
| "isMarker (EndSession r) = True"
| "isMarker (ConsoleError m) = (m = ''Execution error:'')"
| "isMarker (Logger m) = (m = ''warn system: Force quit!'')"
| "isMarker _ = False"

definition unmarked :: "effect list \<Rightarrow> bool" where
  "unmarked tr = list_all (\<lambda>e. \<not> isMarker e) tr"



text \<open>The effects of the stages that come before the lock is taken.\<close>

fun beforeLock :: "effect \<Rightarrow> bool" where
  "beforeLock (Console m) = True"
| "beforeLock (ConsoleError m) = True"
| "beforeLock PrintRunHelp = True"
| "beforeLock RunSetupWizard = True"
| "beforeLock InitializePlugins = True"
| "beforeLock DeleteSession = True"
| "beforeLock _ = False"

text \<open>
  A run that was refused: the engine was neither initialised nor started, no lock was
  taken, and the command ended with code 1 or, before it came to the lock, by returning.
\<close>

definition refused :: "Outcome \<Rightarrow> effect list \<Rightarrow> bool" where
  "refused out tr =
     (EngineStart \<notin> set tr \<and> EngineInitialize True \<notin> set tr \<and> AcquireLock True \<notin> set tr \<and>
      (AcquireLock False \<in> set tr \<longrightarrow> out = Exited 1) \<and>
      (out = Exited 1 \<or> (out = Returned \<and> AcquireLock False \<notin> set tr)))"

subsection \<open>A sample environment\<close>

definition sampleConfig :: "ExtendedRuntimeOptions \<Rightarrow> RalphConfig option" where
  "sampleConfig options =
     Some \<lparr> configCwd = ''/work'', showTui = (\<not> headless options), maxIterations = 10,
            agentPlugin = ''claude'', trackerPlugin = ''json'', configEpicId = epicId options,
            configPrdPath = prdPath options \<rparr>"

definition sampleTasks :: "TrackerTask list" where
  "sampleTasks = [\<lparr>taskId = ''T1'', taskTitle = ''first''\<rparr>,
                  \<lparr>taskId = ''T2'', taskTitle = ''second''\<rparr>]"

text \<open>
  A project with a valid configuration, no session file, no lock, two open tasks, a store
  whose saves succeed, and an engine that stops with work left.
\<close>

definition sampleEnv :: "(int \<times> Input) list \<Rightarrow> Env" where
  "sampleEnv ins =
     \<lparr> projectConfigExists = True, runSetupWizard = SetupSucceeded,
       buildConfig = sampleConfig, validationValid = True, validationWarnings = [],
       checkHasSession = False, checkIsLocked = False, checkIsStale = False,
       sessionFile = NoFile, lockFile = None, livePids = [], resumedSessionId = None,
       createdSessionId = ''s-1'', engineInitializes = True, trackerTasks = sampleTasks,
       startTime = 1700000000000, saveOk = (\<lambda>k. True), engineStartReturns = True,
       inputs = ins, inputsAfterStop = [],
       finalEngineState = \<lparr> engineTasksCompleted = 0, engineTotalTasks = 2,
                            engineStatus = EngineStoppedStatus \<rparr> \<rparr>"

definition sampleState :: PersistedSessionState where
  "sampleState = createPersistedSession 1700000000000 ''s-1'' sampleTasks"

definition sampleRunState :: RunState where
  "sampleRunState = \<lparr> currentState = sampleState, lastSigintTime = 0, pendingShutdown = None,
                      trace = [] \<rparr>"




definition heldLock :: Lock where
  "heldLock = \<lparr> pid = 4242, lockSessionId = ''s-0'', acquiredAt = 1690000000000,
                host = ''build-host'' \<rparr>"

section \<open>Properties of the parsers\<close>

text \<open>
  Both loops are defined with a termination proof, so they return on every argument list;
  no branch of either raises (an out-of-range read is \<^verbatim>\<open>undefined\<close>, a failed
  \<^verbatim>\<open>parseInt\<close> is \<^verbatim>\<open>NaN\<close>). The index loops are recursions on the token list.
\<close>

declare parseRunArgsLoop.simps [simp del]
declare parseCreatePrdArgsLoop.simps [simp del]


lemma argAt_Cons_Suc: "argAt (x # args) (Suc i) = argAt args i"
  by (simp add: argAt_def)

lemma parseRunArgsLoop_shift:
  "parseRunArgsLoop (x # args) (Suc i) options = parseRunArgsLoop args i options"
proof (induction args i options rule: parseRunArgsLoop.induct)
  case (1 args i options)
  show ?case
  proof (cases "i < length args")
    case True
    obtain o' c where step: "runArgCase (args ! i) (argAt args (i + 1)) options = (o', c)"
      by (cases "runArgCase (args ! i) (argAt args (i + 1)) options")
    have ih: "parseRunArgsLoop (x # args) (Suc (if c then i + 2 else i + 1)) o'
        = parseRunArgsLoop args (if c then i + 2 else i + 1) o'"
      using "1.IH" [OF True step [symmetric]] .
    have l: "parseRunArgsLoop (x # args) (Suc i) options
        = parseRunArgsLoop (x # args) (Suc (if c then i + 2 else i + 1)) o'"
      using True step
      by (subst parseRunArgsLoop.simps) (simp add: argAt_Cons_Suc)
    have r: "parseRunArgsLoop args i options
        = parseRunArgsLoop args (if c then i + 2 else i + 1) o'"
      using True step
      by (subst parseRunArgsLoop.simps) simp
    show ?thesis
      by (simp only: l r ih)
  next
    case False
    then show ?thesis
      by (subst parseRunArgsLoop.simps, subst (2) parseRunArgsLoop.simps) simp
  qed
qed

lemma parseRunArgsLoop_Cons:
  "parseRunArgsLoop (arg # rest) 0 options =
     (case runArgCase arg (argAt rest 0) options of
        (options', consumed) \<Rightarrow> parseRunArgsLoop rest (if consumed then 1 else 0) options')"
proof -
  obtain o' c where step: "runArgCase arg (argAt rest 0) options = (o', c)"
    by (cases "runArgCase arg (argAt rest 0) options")
  have a: "argAt (arg # rest) (0 + 1) = argAt rest 0"
    by (simp add: argAt_def)
  have "parseRunArgsLoop (arg # rest) 0 options
      = parseRunArgsLoop (arg # rest) (Suc (if c then 1 else 0)) o'"
    using step by (subst parseRunArgsLoop.simps) (simp add: argAt_Cons_Suc)
  also have "\<dots> = parseRunArgsLoop rest (if c then 1 else 0) o'"
    by (rule parseRunArgsLoop_shift)
  finally show ?thesis
    using step by simp
qed

lemma parseCreatePrdArgsLoop_shift:
  "parseCreatePrdArgsLoop (x # args) (Suc i) result = parseCreatePrdArgsLoop args i result"
proof (induction args i result rule: parseCreatePrdArgsLoop.induct)
  case (1 args i result)
  show ?case
  proof (cases "i < length args")
    case True
    show ?thesis
      using True "1.IH"
      by (simp add: parseCreatePrdArgsLoop.simps [of "x # args" "Suc i"]
            parseCreatePrdArgsLoop.simps [of args i] argAt_Cons_Suc Let_def
          split: option.splits)
  next
    case False
    then show ?thesis
      by (simp add: parseCreatePrdArgsLoop.simps [of "x # args" "Suc i"]
            parseCreatePrdArgsLoop.simps [of args i])
  qed
qed


lemma parseRunArgsLoop_Nil: "parseRunArgsLoop [] i options = options"
  by (subst parseRunArgsLoop.simps) simp

lemma runArgCase_unrecognised:
  "tok \<notin> set runValueFlags \<Longrightarrow> tok \<notin> set runSwitches \<Longrightarrow>
   runArgCase tok nextArg options = (options, False)"
  by (simp add: runArgCase_def runValueFlags_def runSwitches_def)

lemma runArgCase_dash:
  assumes "flag \<in> set runValueFlags" and "startsWithDash tok"
  shows "runArgCase flag (Some tok) options = (options, False)"
proof -
  have u: "\<not> usableValue (Some tok)"
    using assms(2) by (simp add: usableValue_def)
  have "flag = ''--epic'' \<or> flag = ''--prd'' \<or> flag = ''--agent'' \<or> flag = ''--model''
      \<or> flag = ''--tracker'' \<or> flag = ''--iterations'' \<or> flag = ''--delay''
      \<or> flag = ''--cwd''"
    using assms(1) unfolding runValueFlags_def
    by (simp only: set_simps insert_iff empty_iff simp_thms)
  then show ?thesis
    unfolding runArgCase_def by (simp only: u if_False) (elim disjE; simp)
qed

text \<open>
  C9. \<^verbatim>\<open>parseRunArgs\<close> returns for every argument list (it is a total function with no
  raising branch); a token that is neither a value flag nor a switch is skipped with the
  options unchanged; and when the token after a value flag starts with \<^verbatim>\<open>-\<close>, the flag
  assigns nothing and the loop advances by one only, so that token is examined next as a
  flag in its own right.
\<close>

theorem parseRunArgs_skips:
  "(tok \<notin> set runValueFlags \<and> tok \<notin> set runSwitches \<longrightarrow>
      parseRunArgsLoop (tok # rest) 0 options = parseRunArgsLoop rest 0 options) \<and>
   (flag \<in> set runValueFlags \<and> startsWithDash dtok \<longrightarrow>
      parseRunArgsLoop (flag # dtok # rest) 0 options
        = parseRunArgsLoop (dtok # rest) 0 options) \<and>
   (flag \<in> set runValueFlags \<and> startsWithDash dtok \<longrightarrow>
      parseRunArgs (flag # dtok # rest) = parseRunArgs (dtok # rest))"
  by (simp add: parseRunArgs_def parseRunArgsLoop_Cons [of tok]
        parseRunArgsLoop_Cons [of flag] runArgCase_unrecognised runArgCase_dash argAt_def)

theorem parseRunArgs_skips_witness:
  "''--verbose'' \<notin> set runValueFlags \<and> ''--verbose'' \<notin> set runSwitches \<and>
   ''--epic'' \<in> set runValueFlags \<and> startsWithDash ''--force'' \<and>
   parseRunArgsLoop [''--verbose'', ''x''] 0 emptyOptions
     = parseRunArgsLoop [''x''] 0 emptyOptions \<and>
   parseRunArgs [''--epic'', ''--force'', ''x''] = parseRunArgs [''--force'', ''x''] \<and>
   epicId (parseRunArgs [''--epic'', ''--force'', ''x'']) = None \<and>
   force (parseRunArgs [''--epic'', ''--force'', ''x''])"
proof -
  have a: "''--verbose'' \<notin> set runValueFlags \<and> ''--verbose'' \<notin> set runSwitches"
    by (simp add: runValueFlags_def runSwitches_def)
  have b: "''--epic'' \<in> set runValueFlags \<and> startsWithDash ''--force''"
    by (simp add: runValueFlags_def startsWithDash_def)
  have c: "parseRunArgs [''--force'', ''x''] = emptyOptions\<lparr>force := True\<rparr>"
    by (simp add: parseRunArgs_def parseRunArgsLoop_Cons parseRunArgsLoop_Nil runArgCase_def
          argAt_def)
  show ?thesis
    using a b c
      parseRunArgs_skips [of "''--verbose''" "[''x'']" emptyOptions "''--epic''" "''--force''"]
    by (simp add: emptyOptions_def)
qed

lemma parseCreatePrdArgsLoop_Cons2:
  "parseCreatePrdArgsLoop (flag # tok # rest) 0 result =
     (if flag = ''--cwd'' \<or> flag = ''-C'' then
        parseCreatePrdArgsLoop rest 0 (result\<lparr>prd_cwd := Some tok\<rparr>)
      else if flag = ''--output'' \<or> flag = ''-o'' then
        parseCreatePrdArgsLoop rest 0 (result\<lparr>prd_output := Some tok\<rparr>)
      else if flag = ''--stories'' \<or> flag = ''-n'' then
        (case parseInt10 tok of
           None \<Rightarrow> parseCreatePrdArgsLoop rest 0 result
         | Some count \<Rightarrow> parseCreatePrdArgsLoop rest 0 (result\<lparr>prd_stories := Some count\<rparr>))
      else if flag = ''--force'' \<or> flag = ''-f'' then
        parseCreatePrdArgsLoop (tok # rest) 0 (result\<lparr>prd_force := True\<rparr>)
      else if flag = ''--agent'' \<or> flag = ''-a'' then
        parseCreatePrdArgsLoop rest 0 (result\<lparr>prd_agent := Some tok\<rparr>)
      else if flag = ''--timeout'' \<or> flag = ''-t'' then
        (case parseInt10 tok of
           None \<Rightarrow> parseCreatePrdArgsLoop rest 0 result
         | Some timeout \<Rightarrow> parseCreatePrdArgsLoop rest 0 (result\<lparr>prd_timeout := Some timeout\<rparr>))
      else if flag = ''--help'' \<or> flag = ''-h'' then ProcessExit 0
      else parseCreatePrdArgsLoop (tok # rest) 0 result)"
proof -
  have two: "parseCreatePrdArgsLoop (flag # tok # rest) (0 + 2) r
      = parseCreatePrdArgsLoop rest 0 r" for r
    by (simp add: numeral_2_eq_2 parseCreatePrdArgsLoop_shift)
  have one: "parseCreatePrdArgsLoop (flag # tok # rest) (0 + 1) r
      = parseCreatePrdArgsLoop (tok # rest) 0 r" for r
    by (simp add: parseCreatePrdArgsLoop_shift)
  have at: "argAt (flag # tok # rest) (0 + 1) = Some tok"
    by (simp add: argAt_def)
  show ?thesis
    by (subst parseCreatePrdArgsLoop.simps)
       (simp only: two one at Let_def orEmpty_def option.case list.size nth_Cons_0
          zero_less_Suc if_True add_Suc_right add_0_right)
qed

text \<open>
  C10. \<^verbatim>\<open>parseCreatePrdArgs\<close> always takes the token after a value flag as that flag's
  value: after \<^verbatim>\<open>--cwd\<close>, \<^verbatim>\<open>--output\<close>, \<^verbatim>\<open>--agent\<close> (and their short forms) the token is
  stored even when it is itself a flag, and after \<^verbatim>\<open>--stories\<close>, \<^verbatim>\<open>--timeout\<close> a token
  that does not parse as a number leaves the numeric field as it was, yet parsing resumes
  after that token.
\<close>

theorem parseCreatePrdArgs_consumes:
  "(flag \<in> {''--cwd'', ''-C''} \<longrightarrow>
      parseCreatePrdArgsLoop (flag # tok # rest) 0 result
        = parseCreatePrdArgsLoop rest 0 (result\<lparr>prd_cwd := Some tok\<rparr>)) \<and>
   (flag \<in> {''--output'', ''-o''} \<longrightarrow>
      parseCreatePrdArgsLoop (flag # tok # rest) 0 result
        = parseCreatePrdArgsLoop rest 0 (result\<lparr>prd_output := Some tok\<rparr>)) \<and>
   (flag \<in> {''--agent'', ''-a''} \<longrightarrow>
      parseCreatePrdArgsLoop (flag # tok # rest) 0 result
        = parseCreatePrdArgsLoop rest 0 (result\<lparr>prd_agent := Some tok\<rparr>)) \<and>
   (flag \<in> {''--stories'', ''-n'', ''--timeout'', ''-t''} \<and> parseInt10 tok = None \<longrightarrow>
      parseCreatePrdArgsLoop (flag # tok # rest) 0 result
        = parseCreatePrdArgsLoop rest 0 result)"
proof (intro conjI impI)
  assume "flag \<in> {''--cwd'', ''-C''}"
  then show "parseCreatePrdArgsLoop (flag # tok # rest) 0 result
      = parseCreatePrdArgsLoop rest 0 (result\<lparr>prd_cwd := Some tok\<rparr>)"
    by (simp only: insert_iff empty_iff simp_thms)
       (elim disjE; simp add: parseCreatePrdArgsLoop_Cons2)
next
  assume "flag \<in> {''--output'', ''-o''}"
  then show "parseCreatePrdArgsLoop (flag # tok # rest) 0 result
      = parseCreatePrdArgsLoop rest 0 (result\<lparr>prd_output := Some tok\<rparr>)"
    by (simp only: insert_iff empty_iff simp_thms)
       (elim disjE; simp add: parseCreatePrdArgsLoop_Cons2)
next
  assume "flag \<in> {''--agent'', ''-a''}"
  then show "parseCreatePrdArgsLoop (flag # tok # rest) 0 result
      = parseCreatePrdArgsLoop rest 0 (result\<lparr>prd_agent := Some tok\<rparr>)"
    by (simp only: insert_iff empty_iff simp_thms)
       (elim disjE; simp add: parseCreatePrdArgsLoop_Cons2)
next
  assume "flag \<in> {''--stories'', ''-n'', ''--timeout'', ''-t''} \<and> parseInt10 tok = None"
  then have nan: "parseInt10 tok = None"
    and f: "flag = ''--stories'' \<or> flag = ''-n'' \<or> flag = ''--timeout'' \<or> flag = ''-t''"
    by (simp_all only: insert_iff empty_iff simp_thms)
  from f show "parseCreatePrdArgsLoop (flag # tok # rest) 0 result
      = parseCreatePrdArgsLoop rest 0 result"
    by (elim disjE; simp add: parseCreatePrdArgsLoop_Cons2 nan)
qed

theorem parseCreatePrdArgs_consumes_witness:
  "parseCreatePrdArgs [''--cwd'', ''--force''] = Returns (emptyCreatePrdArgs\<lparr>prd_cwd := Some ''--force''\<rparr>) \<and>
   parseCreatePrdArgs [''-o'', ''--help''] = Returns (emptyCreatePrdArgs\<lparr>prd_output := Some ''--help''\<rparr>) \<and>
   parseCreatePrdArgs [''--agent'', ''-f''] = Returns (emptyCreatePrdArgs\<lparr>prd_agent := Some ''-f''\<rparr>) \<and>
   parseInt10 ''many'' = None \<and>
   parseCreatePrdArgs [''--stories'', ''many''] = Returns emptyCreatePrdArgs"
proof -
  have nil: "parseCreatePrdArgsLoop [] 0 r = Returns r" for r
    by (subst parseCreatePrdArgsLoop.simps) simp
  have nan: "parseInt10 ''many'' = None"
    by code_simp
  show ?thesis
    using nan
      parseCreatePrdArgs_consumes [of "''--cwd''" "''--force''" "[]" emptyCreatePrdArgs]
      parseCreatePrdArgs_consumes [of "''-o''" "''--help''" "[]" emptyCreatePrdArgs]
      parseCreatePrdArgs_consumes [of "''--agent''" "''-f''" "[]" emptyCreatePrdArgs]
      parseCreatePrdArgs_consumes [of "''--stories''" "''many''" "[]" emptyCreatePrdArgs]
    by (simp add: parseCreatePrdArgs_def nil)
qed


section \<open>Properties of the run command\<close>

subsection \<open>What the handlers of the headless mode add to the effects\<close>

lemma headlessOnEvent_keeps:
  "lastSigintTime (headlessOnEvent sv now e rs) = lastSigintTime rs"
  "pendingShutdown (headlessOnEvent sv now e rs) = pendingShutdown rs"
  by (cases e; simp add: Let_def)+


lemma beginShutdown_suffix:
  assumes "list_all runEffect logs" and "forceQuitLog \<notin> set logs"
  shows "\<exists>suf. trace (beginShutdown sv logs rs) = trace rs @ suf \<and> list_all runEffect suf
      \<and> forceQuitLog \<notin> set suf
      \<and> (pendingShutdown (beginShutdown sv logs rs) = Some True \<longrightarrow>
            pendingShutdown rs = Some True \<or> (\<exists>e\<in>set suf. savedInterrupted e))
      \<and> lastSigintTime (beginShutdown sv logs rs) = lastSigintTime rs"
  using assms
  by (cases "pendingShutdown rs")
     (auto simp: beginShutdown_def Let_def savePersistedSession_def forceQuitLog_def)

lemma handleSigint_force:
  "now - lastSigintTime rs < DOUBLE_PRESS_WINDOW_MS \<Longrightarrow>
   handleSigint sv now rs =
     (Some (Exited 1), rs\<lparr>lastSigintTime := now, trace := trace rs @ [forceQuitLog]\<rparr>)"
  by (simp add: handleSigint_def Let_def)

lemma handleSigint_graceful:
  "\<not> now - lastSigintTime rs < DOUBLE_PRESS_WINDOW_MS \<Longrightarrow>
   handleSigint sv now rs = (None, gracefulShutdown sv (rs\<lparr>lastSigintTime := now\<rparr>))"
  by (simp add: handleSigint_def Let_def)

lemma gracefulShutdown_suffix:
  "\<exists>suf. trace (gracefulShutdown sv rs) = trace rs @ suf \<and> list_all runEffect suf
      \<and> forceQuitLog \<notin> set suf
      \<and> (pendingShutdown (gracefulShutdown sv rs) = Some True \<longrightarrow>
            pendingShutdown rs = Some True \<or> (\<exists>e\<in>set suf. savedInterrupted e))
      \<and> lastSigintTime (gracefulShutdown sv rs) = lastSigintTime rs"
  unfolding gracefulShutdown_def
  by (rule beginShutdown_suffix) (simp_all add: forceQuitLog_def)





subsection \<open>What the handlers of the TUI mode add to the effects\<close>






subsection \<open>The run functions as a whole\<close>





subsection \<open>Exit codes, stage by stage\<close>

lemma unmarked_append [simp]: "unmarked (a @ b) = (unmarked a \<and> unmarked b)"
  by (simp add: unmarked_def)

lemma unmarked_Nil [simp]: "unmarked []"
  by (simp add: unmarked_def)

lemma unmarked_Cons [simp]: "unmarked (e # tr) = (\<not> isMarker e \<and> unmarked tr)"
  by (simp add: unmarked_def)




lemma savedInterrupted_noMarker: "savedInterrupted e \<Longrightarrow> \<not> isMarker e"
  by (cases e) simp_all

















subsection \<open>The session file, stage by stage\<close>


lemma fileAfter_Nil [simp]: "fileAfter f [] = f"
  by (simp add: fileAfter_def)

lemma fileAfter_Cons [simp]: "fileAfter f (e # tr) = fileAfter (applyEffect f e) tr"
  by (simp add: fileAfter_def)

















subsection \<open>Exit codes and the fate of the session file\<close>








subsection \<open>A lock held by a live process\<close>

lemma beforeLock_mem:
  assumes "list_all beforeLock tr"
  shows "EngineStart \<notin> set tr" "EngineInitialize b \<notin> set tr" "AcquireLock b \<notin> set tr"
proof -
  have "\<forall>e\<in>set tr. beforeLock e"
    using assms by (simp add: list_all_iff)
  then show "EngineStart \<notin> set tr" "EngineInitialize b \<notin> set tr" "AcquireLock b \<notin> set tr"
    by force+
qed

lemma refused_beforeLock:
  "list_all beforeLock tr \<Longrightarrow> out = Exited 1 \<or> out = Returned \<Longrightarrow> refused out tr"
  using beforeLock_mem [of tr] by (auto simp: refused_def)

lemma acquire_live_holder:
  assumes "lockFile env = Some holder" and "pid holder \<in> set (livePids env)"
  shows "acquired (acquireLockWithPrompt (lockFile env) (livePids env) forceOpt nonInteractive)
      = forceOpt"
  using assms by (simp add: acquireLockWithPrompt_def)

lemma takeLock_refused:
  assumes "lockFile env = Some holder" and "pid holder \<in> set (livePids env)"
    and "\<not> force options" and "list_all beforeLock tr"
  shows "refused (fst (takeLock env options config tr)) (snd (takeLock env options config tr))"
proof -
  let ?extra = "if existingPid (acquireLockWithPrompt (lockFile env) (livePids env)
      (force options) (headless options)) \<noteq> None
      then [ConsoleError ''  Use --force to override.''] else []"
  have "takeLock env options config tr
      = (Exited 1, tr @ [AcquireLock False, ConsoleError ''Error: lock not acquired''] @ ?extra)"
    using acquire_live_holder [OF assms(1,2), of "force options" "headless options"] assms(3)
    by (simp add: takeLock_def Let_def)
  then show ?thesis
    using beforeLock_mem [OF assms(4)] by (simp add: refused_def)
qed

lemma promptResumeOrNew_beforeLock: "list_all beforeLock (snd (promptResumeOrNew env))"
  by (simp add: promptResumeOrNew_def Let_def split: option.splits)

lemma checkPersisted_refused:
  assumes "lockFile env = Some holder" and "pid holder \<in> set (livePids env)"
    and "\<not> force options" and "list_all beforeLock tr"
  shows "refused (fst (checkPersisted env options config tr))
           (snd (checkPersisted env options config tr))"
proof -
  note tl = takeLock_refused [OF assms(1,2,3)]
  show ?thesis
  proof (cases "hasPersistedSession (sessionFile env) \<and> \<not> force options \<and> \<not> resume options")
    case False
    then have "checkPersisted env options config tr = takeLock env options config tr"
      by (auto simp: checkPersisted_def)
    with tl [OF assms(4), of config] show ?thesis by simp
  next
    case True
    obtain choice printed where p: "promptResumeOrNew env = (choice, printed)"
      by (cases "promptResumeOrNew env")
    with promptResumeOrNew_beforeLock [of env] have bp: "list_all beforeLock printed"
      by simp
    show ?thesis
    proof (cases choice)
      case ChooseAbort
      have "checkPersisted env options config tr = (Exited 1, tr @ printed)"
        using True p ChooseAbort by (simp add: checkPersisted_def)
      moreover have "refused (Exited 1) (tr @ printed)"
        using assms(4) bp by (intro refused_beforeLock) simp_all
      ultimately show ?thesis by simp
    next
      case ChooseNew
      have "checkPersisted env options config tr
          = takeLock env options config (tr @ printed @ [DeleteSession])"
        using True p ChooseNew by (simp add: checkPersisted_def)
      moreover have "list_all beforeLock (tr @ printed @ [DeleteSession])"
        using assms(4) bp by simp
      ultimately show ?thesis
        using tl [of "tr @ printed @ [DeleteSession]" config] by simp
    next
      case ChooseResume
      have "checkPersisted env options config tr = takeLock env options config (tr @ printed)"
        using True p ChooseResume by (simp add: checkPersisted_def)
      moreover have "list_all beforeLock (tr @ printed)"
        using assms(4) bp by simp
      ultimately show ?thesis
        using tl [of "tr @ printed" config] by simp
    qed
  qed
qed

lemma configure_refused:
  assumes "lockFile env = Some holder" and "pid holder \<in> set (livePids env)"
    and "\<not> force options" and "list_all beforeLock tr"
  shows "refused (fst (configure env options tr)) (snd (configure env options tr))"
proof -
  let ?pre = "[Console ''Initializing Ralph TUI...'', InitializePlugins]"
  show ?thesis
  proof (cases "buildConfig env options")
    case None
    then have "configure env options tr = (Exited 1, tr @ ?pre)"
      by (simp add: configure_def Let_def)
    moreover have "refused (Exited 1) (tr @ ?pre)"
      using assms(4) by (intro refused_beforeLock) simp_all
    ultimately show ?thesis by simp
  next
    case (Some config)
    show ?thesis
    proof (cases "validationValid env")
      case False
      with Some have "configure env options tr
          = (Exited 1, tr @ ?pre @ [ConsoleError ''Configuration errors:''])"
        by (simp add: configure_def Let_def)
      moreover have "refused (Exited 1) (tr @ ?pre @ [ConsoleError ''Configuration errors:''])"
        using assms(4) by (intro refused_beforeLock) simp_all
      ultimately show ?thesis by simp
    next
      case True
      let ?tr2 = "tr @ ?pre @ map (\<lambda>w. Console (''Warning: '' @ w)) (validationWarnings env)"
      have "configure env options tr = checkPersisted env options config ?tr2"
        using Some True by (simp add: configure_def Let_def)
      moreover have "list_all beforeLock ?tr2"
        using assms(4) by (simp add: list_all_iff) auto
      ultimately show ?thesis
        using checkPersisted_refused [OF assms(1,2,3), of ?tr2 config] by simp
    qed
  qed
qed

lemma executeRunCommand_refused:
  assumes "lockFile env = Some holder" and "pid holder \<in> set (livePids env)"
    and "\<not> force (parseRunArgs args)"
  shows "refused (fst (executeRunCommand env args)) (snd (executeRunCommand env args))"
proof -
  let ?o = "parseRunArgs args"
  note cf = configure_refused [OF assms]
  let ?tr = "[Console ''No .ralph-tui.yaml configuration found in this project.'',
      RunSetupWizard]"
  show ?thesis
  proof (cases "''--help'' \<in> set args \<or> ''-h'' \<in> set args")
    case True
    then have "executeRunCommand env args = (Returned, [PrintRunHelp])"
      by (simp add: executeRunCommand_def)
    moreover have "refused Returned [PrintRunHelp]"
      by (intro refused_beforeLock) simp_all
    ultimately show ?thesis by simp
  next
    case False
    show ?thesis
    proof (cases "\<not> projectConfigExists env \<and> \<not> noSetup ?o")
      case wizard: True
      show ?thesis
      proof (cases "runSetupWizard env")
        case SetupSucceeded
        with False wizard have "executeRunCommand env args
            = configure env ?o (?tr @ [Console ''Setup complete! Starting Ralph...''])"
          by (simp add: executeRunCommand_def Let_def)
        with cf [of "?tr @ [Console ''Setup complete! Starting Ralph...'']"] show ?thesis
          by simp
      next
        case SetupCancelled
        with False wizard have "executeRunCommand env args
            = (Returned, ?tr @ [Console ''Run ralph-tui setup to configure later''])"
          by (simp add: executeRunCommand_def Let_def)
        moreover have "refused Returned
            (?tr @ [Console ''Run ralph-tui setup to configure later''])"
          by (intro refused_beforeLock) simp_all
        ultimately show ?thesis by simp
      next
        case SetupFailed
        with False wizard have "executeRunCommand env args
            = (Exited 1, ?tr @ [ConsoleError ''Setup failed:''])"
          by (simp add: executeRunCommand_def Let_def)
        moreover have "refused (Exited 1) (?tr @ [ConsoleError ''Setup failed:''])"
          by (intro refused_beforeLock) simp_all
        ultimately show ?thesis by simp
      qed
    next
      case plain: False
      let ?pre = "if \<not> projectConfigExists env \<and> noSetup ?o
          then [Console ''No .ralph-tui.yaml found. Using default configuration.''] else []"
      have "executeRunCommand env args = configure env ?o ?pre"
        using False plain by (auto simp: executeRunCommand_def Let_def)
      moreover have "list_all beforeLock ?pre"
        by simp
      ultimately show ?thesis
        using cf [of ?pre] by simp
    qed
  qed
qed

text \<open>
  C6. Against a lock file that names a live holder, lock acquisition fails unless
  \<open>force\<close> is set (and succeeds when it is). The run command then never takes the lock,
  never initialises or starts the engine, and once the acquisition has been refused it
  exits with code 1; this holds whatever the mode, so in headless mode too. (A command
  that only prints the help or whose setup was cancelled returns before it comes to the
  lock.)
\<close>

theorem live_lock_refuses_run:
  assumes "lockFile env = Some holder" and "pid holder \<in> set (livePids env)"
    and "\<not> force (parseRunArgs args)"
  shows "\<not> acquired (acquireLockWithPrompt (lockFile env) (livePids env)
            (force (parseRunArgs args)) (headless (parseRunArgs args)))
    \<and> acquired (acquireLockWithPrompt (lockFile env) (livePids env) True nonInteractive)
    \<and> EngineStart \<notin> set (snd (executeRunCommand env args))
    \<and> EngineInitialize True \<notin> set (snd (executeRunCommand env args))
    \<and> AcquireLock True \<notin> set (snd (executeRunCommand env args))
    \<and> (AcquireLock False \<in> set (snd (executeRunCommand env args))
          \<longrightarrow> fst (executeRunCommand env args) = Exited 1)
    \<and> (fst (executeRunCommand env args) = Exited 1
          \<or> (fst (executeRunCommand env args) = Returned
               \<and> AcquireLock False \<notin> set (snd (executeRunCommand env args))))"
  using executeRunCommand_refused [OF assms] acquire_live_holder [OF assms(1,2)] assms(3)
  by (simp add: refused_def)

theorem live_lock_refuses_run_witness:
  "lockFile ((sampleEnv [])\<lparr>lockFile := Some heldLock, livePids := [4242]\<rparr>) = Some heldLock \<and>
   pid heldLock \<in> set (livePids ((sampleEnv [])\<lparr>lockFile := Some heldLock, livePids := [4242]\<rparr>)) \<and>
   \<not> force (parseRunArgs [''--headless'']) \<and> headless (parseRunArgs [''--headless'']) \<and>
   AcquireLock False \<in> set (snd (executeRunCommand
      ((sampleEnv [])\<lparr>lockFile := Some heldLock, livePids := [4242]\<rparr>) [''--headless''])) \<and>
   fst (executeRunCommand
      ((sampleEnv [])\<lparr>lockFile := Some heldLock, livePids := [4242]\<rparr>) [''--headless''])
     = Exited 1 \<and>
   EngineStart \<notin> set (snd (executeRunCommand
      ((sampleEnv [])\<lparr>lockFile := Some heldLock, livePids := [4242]\<rparr>) [''--headless'']))"
proof -
  let ?env = "(sampleEnv [])\<lparr>lockFile := Some heldLock, livePids := [4242]\<rparr>"
  have h: "lockFile ?env = Some heldLock" "pid heldLock \<in> set (livePids ?env)"
    "\<not> force (parseRunArgs [''--headless''])" "headless (parseRunArgs [''--headless''])"
    by code_simp+
  have a: "AcquireLock False \<in> set (snd (executeRunCommand ?env [''--headless'']))"
    by code_simp
  from live_lock_refuses_run [OF h(1,2,3)] a h show ?thesis
    by blast
qed


subsection \<open>Interrupts in headless mode\<close>

lemma headlessInputs_append:
  "headlessInputs sv (a @ b) rs =
     (case headlessInputs sv a rs of
        (Some out, rs') \<Rightarrow> (Some out, rs')
      | (None, rs') \<Rightarrow> headlessInputs sv b rs')"
proof (induction a arbitrary: rs)
  case Nil
  then show ?case by simp
next
  case (Cons x a)
  obtain o1 rs1 where step: "headlessStep sv x rs = (o1, rs1)"
    by (cases "headlessStep sv x rs")
  show ?case
    using Cons.IH [of rs1] step by (cases o1) simp_all
qed

lemma headlessStep_other:
  assumes "snd x \<noteq> SIGINT"
  shows "\<exists>rs'. headlessStep sv x rs = (None, rs') \<and> lastSigintTime rs' = lastSigintTime rs"
proof (cases x)
  case (Pair now inp)
  with assms show ?thesis
    by (cases inp)
       (simp_all add: headlessOnEvent_keeps handleSigterm_def beginShutdown_def Let_def)
qed

lemma headlessInputs_other:
  "\<forall>x\<in>set mid. snd x \<noteq> SIGINT \<Longrightarrow>
   \<exists>rs'. headlessInputs sv mid rs = (None, rs') \<and> lastSigintTime rs' = lastSigintTime rs"
proof (induction mid arbitrary: rs)
  case Nil
  then show ?case by simp
next
  case (Cons x mid)
  then have "snd x \<noteq> SIGINT" and rest: "\<forall>x\<in>set mid. snd x \<noteq> SIGINT"
    by simp_all
  from headlessStep_other [OF this(1), of sv rs] obtain rs1 where
    s: "headlessStep sv x rs = (None, rs1)" "lastSigintTime rs1 = lastSigintTime rs"
    by blast
  from Cons.IH [OF rest, of rs1] s show ?case
    by simp
qed

lemma headlessStep_emit:
  assumes "isEmit (snd x)"
  shows "\<exists>rs'. headlessStep sv x rs = (None, rs') \<and> lastSigintTime rs' = lastSigintTime rs
      \<and> pendingShutdown rs' = pendingShutdown rs"
proof (cases x)
  case (Pair now inp)
  with assms show ?thesis
    by (cases inp) (simp_all add: headlessOnEvent_keeps)
qed

lemma headlessInputs_emit:
  "\<forall>x\<in>set evs. isEmit (snd x) \<Longrightarrow>
   \<exists>rs'. headlessInputs sv evs rs = (None, rs') \<and> lastSigintTime rs' = lastSigintTime rs
      \<and> pendingShutdown rs' = pendingShutdown rs"
proof (induction evs arbitrary: rs)
  case Nil
  then show ?case by simp
next
  case (Cons x evs)
  then have "isEmit (snd x)" and rest: "\<forall>x\<in>set evs. isEmit (snd x)"
    by simp_all
  from headlessStep_emit [OF this(1), of sv rs] obtain rs1 where
    s: "headlessStep sv x rs = (None, rs1)" "lastSigintTime rs1 = lastSigintTime rs"
      "pendingShutdown rs1 = pendingShutdown rs"
    by blast
  from Cons.IH [OF rest, of rs1] s show ?case
    by simp
qed

lemma double_press:
  assumes "\<forall>x\<in>set mid. snd x \<noteq> SIGINT" and "t2 - t1 < DOUBLE_PRESS_WINDOW_MS"
  shows "fst (headlessInputs sv ((t1, SIGINT) # mid @ (t2, SIGINT) # rest) rs) = Some (Exited 1)
    \<and> last (trace (snd (headlessInputs sv ((t1, SIGINT) # mid @ (t2, SIGINT) # rest) rs)))
        = forceQuitLog"
proof (cases "t1 - lastSigintTime rs < DOUBLE_PRESS_WINDOW_MS")
  case True
  then show ?thesis
    by (simp add: handleSigint_force)
next
  case False
  let ?rs1 = "gracefulShutdown sv (rs\<lparr>lastSigintTime := t1\<rparr>)"
  have l1: "lastSigintTime ?rs1 = t1"
    using gracefulShutdown_suffix [of sv "rs\<lparr>lastSigintTime := t1\<rparr>"] by auto
  from headlessInputs_other [OF assms(1), of sv ?rs1] obtain rs2 where
    m: "headlessInputs sv mid ?rs1 = (None, rs2)" "lastSigintTime rs2 = lastSigintTime ?rs1"
    by blast
  have "t2 - lastSigintTime rs2 < DOUBLE_PRESS_WINDOW_MS"
    using assms(2) m(2) l1 by simp
  then have "headlessInputs sv ((t2, SIGINT) # rest) rs2
      = (Some (Exited 1), rs2\<lparr>lastSigintTime := t2, trace := trace rs2 @ [forceQuitLog]\<rparr>)"
    by (simp add: handleSigint_force)
  then show ?thesis
    using False m(1) by (simp add: handleSigint_graceful headlessInputs_append)
qed

text \<open>
  C5. In headless mode, whenever a second interrupt is handled less than 1000 ms after the
  first (whatever else arrives in between, from whatever state), the process ends at once
  with exit code 1: the force-quit warning is the last thing it does. A single interrupt,
  after any number of engine events, commits to the graceful shutdown instead: the state
  is saved with status \<open>interrupted\<close> and the run ends with exit code 0, or with a rejected
  promise if that save fails; it neither force-quits nor returns to the command. The
  clock is \<^verbatim>\<open>Date.now()\<close>, milliseconds since 1970, and \<^verbatim>\<open>lastSigintTime\<close> starts at 0, so
  the first interrupt is taken to come at a reading of at least 1000.
\<close>

theorem double_sigint_force_quits:
  "((\<forall>x\<in>set mid. snd x \<noteq> SIGINT) \<and> t2 - t1 < DOUBLE_PRESS_WINDOW_MS \<longrightarrow>
      fst (headlessFrom sv esr ((t1, SIGINT) # mid @ (t2, SIGINT) # rest) rs) = RunEnds (Exited 1)
      \<and> last (snd (headlessFrom sv esr ((t1, SIGINT) # mid @ (t2, SIGINT) # rest) rs))
          = forceQuitLog) \<and>
   ((\<forall>x\<in>set evs. isEmit (snd x)) \<and> DOUBLE_PRESS_WINDOW_MS \<le> t1 \<longrightarrow>
      (\<exists>s ok. SaveSession s ok \<in> set (snd (runHeadless sv esr (evs @ [(t1, SIGINT)]) ps tr0))
         \<and> status s = Interrupted
         \<and> fst (runHeadless sv esr (evs @ [(t1, SIGINT)]) ps tr0)
             = RunEnds (if ok then Exited 0 else Rejected)))"
proof (intro conjI impI)
  assume a: "(\<forall>x\<in>set mid. snd x \<noteq> SIGINT) \<and> t2 - t1 < DOUBLE_PRESS_WINDOW_MS"
  let ?ins = "(t1, SIGINT) # mid @ (t2, SIGINT) # rest"
  obtain out rs' where r: "headlessInputs sv ?ins rs = (out, rs')"
    by (cases "headlessInputs sv ?ins rs")
  with double_press [of mid t2 t1 sv rest rs] a
  have "out = Some (Exited 1)" "last (trace rs') = forceQuitLog"
    by simp_all
  with r show "fst (headlessFrom sv esr ?ins rs) = RunEnds (Exited 1)"
    and "last (snd (headlessFrom sv esr ?ins rs)) = forceQuitLog"
    by (simp_all add: headlessFrom_def)
next
  assume a: "(\<forall>x\<in>set evs. isEmit (snd x)) \<and> DOUBLE_PRESS_WINDOW_MS \<le> t1"
  let ?rs0 = "\<lparr> currentState = ps, lastSigintTime = 0, pendingShutdown = None,
                 trace = tr0 @ [Logger ''sessionCreated'', EngineStart] \<rparr>"
  from a headlessInputs_emit [of evs sv ?rs0] obtain rs1 where
    e: "headlessInputs sv evs ?rs0 = (None, rs1)" "lastSigintTime rs1 = 0"
      "pendingShutdown rs1 = None"
    by auto
  let ?rs1' = "rs1\<lparr>lastSigintTime := t1\<rparr>"
  let ?logs = "[Logger ''info system: Interrupted, stopping gracefully...'',
      Logger ''info system: (Press Ctrl+C again within 1s to force quit)'']"
  let ?s = "(currentState rs1)\<lparr>status := Interrupted\<rparr>"
  let ?ok = "saveSucceeds sv (trace rs1 @ ?logs)"
  let ?rs2 = "gracefulShutdown sv ?rs1'"
  have g: "headlessInputs sv [(t1, SIGINT)] rs1 = (None, ?rs2)"
    using a e(2) by (simp add: handleSigint_graceful)
  have p2: "pendingShutdown ?rs2 = Some ?ok"
    and t2: "trace ?rs2 = trace rs1 @ ?logs @ [SaveSession ?s ?ok]"
    using e(3)
    by (simp_all add: gracefulShutdown_def beginShutdown_def Let_def savePersistedSession_def)
  have run: "runHeadless sv esr (evs @ [(t1, SIGINT)]) ps tr0
      = (RunEnds (if ?ok then Exited 0 else Rejected),
         trace ?rs2 @ (if ?ok then [EngineDispose] else []))"
    using e(1) g p2
    by (simp add: runHeadless_def headlessFrom_def headlessInputs_append completeShutdown_def)
  show "\<exists>s ok. SaveSession s ok \<in> set (snd (runHeadless sv esr (evs @ [(t1, SIGINT)]) ps tr0))
      \<and> status s = Interrupted
      \<and> fst (runHeadless sv esr (evs @ [(t1, SIGINT)]) ps tr0)
          = RunEnds (if ok then Exited 0 else Rejected)"
    unfolding run t2 by (intro exI [of _ ?s] exI [of _ ?ok]) simp
qed

theorem double_sigint_force_quits_witness:
  "snd (1700000005100::int, Emit (EngineStopped ''interrupted'' 0 0)) \<noteq> SIGINT \<and>
   (1700000005400::int) - 1700000005000 < DOUBLE_PRESS_WINDOW_MS \<and>
   fst (headlessFrom (\<lambda>k. True) True
          ((1700000005000, SIGINT) # [(1700000005100, Emit (EngineStopped ''interrupted'' 0 0))]
             @ (1700000005400, SIGINT) # []) sampleRunState) = RunEnds (Exited 1) \<and>
   isEmit (snd (1700000004000::int, Emit (EngineStarted 2))) \<and>
   DOUBLE_PRESS_WINDOW_MS \<le> 1700000005000 \<and>
   fst (runHeadless (\<lambda>k. True) True
          ([(1700000004000, Emit (EngineStarted 2))] @ [(1700000005000, SIGINT)]) sampleState [])
     \<noteq> RunEnds (Exited 1)"
proof -
  have h1: "(\<forall>x\<in>set [(1700000005100::int, Emit (EngineStopped ''interrupted'' 0 0))].
      snd x \<noteq> SIGINT) \<and> (1700000005400::int) - 1700000005000 < DOUBLE_PRESS_WINDOW_MS"
    by (simp add: DOUBLE_PRESS_WINDOW_MS_def)
  have h2: "(\<forall>x\<in>set [(1700000004000::int, Emit (EngineStarted 2))]. isEmit (snd x))
      \<and> DOUBLE_PRESS_WINDOW_MS \<le> 1700000005000"
    by (simp add: DOUBLE_PRESS_WINDOW_MS_def)
  from h1 double_sigint_force_quits
    [where mid = "[(1700000005100, Emit (EngineStopped ''interrupted'' 0 0))]"
       and ?t2.0 = 1700000005400 and ?t1.0 = 1700000005000 and sv = "\<lambda>k. True" and esr = True
       and rest = "[]" and rs = sampleRunState]
  have a: "fst (headlessFrom (\<lambda>k. True) True
      ((1700000005000, SIGINT) # [(1700000005100, Emit (EngineStopped ''interrupted'' 0 0))]
         @ (1700000005400, SIGINT) # []) sampleRunState) = RunEnds (Exited 1)"
    by blast
  from h2 double_sigint_force_quits
    [where evs = "[(1700000004000, Emit (EngineStarted 2))]" and ?t1.0 = 1700000005000
       and sv = "\<lambda>k. True" and esr = True and ps = sampleState and ?tr0.0 = "[]"]
  have b: "\<exists>s ok. SaveSession s ok \<in> set (snd (runHeadless (\<lambda>k. True) True
          ([(1700000004000, Emit (EngineStarted 2))] @ [(1700000005000, SIGINT)]) sampleState []))
        \<and> status s = Interrupted
        \<and> fst (runHeadless (\<lambda>k. True) True
          ([(1700000004000, Emit (EngineStarted 2))] @ [(1700000005000, SIGINT)]) sampleState [])
            = RunEnds (if ok then Exited 0 else Rejected)"
    by blast
  from b have "fst (runHeadless (\<lambda>k. True) True
      ([(1700000004000, Emit (EngineStarted 2))] @ [(1700000005000, SIGINT)]) sampleState [])
    \<noteq> RunEnds (Exited 1)"
    by (auto split: if_splits)
  with h1 h2 a show ?thesis
    by simp
qed





subsection \<open>What the subscribers save\<close>

lemma finishRun_saves_first:
  "\<exists>st ok rest. snd (finishRun env ps tr) = tr @ SaveSession st ok # rest
      \<and> (st = ps \<or> st = completeSession ps)"
  by (auto simp: finishRun_def Let_def savePersistedSession_def)

text \<open>
  C3, as the code has it. In both modes the subscriber ends its handling of every
  \<open>iteration:completed\<close>, \<open>engine:paused\<close> and \<open>engine:resumed\<close> event with a call of
  \<^verbatim>\<open>savePersistedSession\<close> on the state it has just updated, so the call is made before any
  later event is handled. On every other event, \<open>engine:stopped\<close> among them, the
  subscriber saves nothing and leaves the state as it is; after the engine has stopped the
  state is saved once the run function has returned: the save is the first thing the
  command does then.
\<close>

theorem subscribers_save_on_event:
  "(persistsOn e \<longrightarrow>
      (\<exists>logs. (\<forall>l\<in>set logs. \<not> isSave l) \<and>
         trace (headlessOnEvent sv now e rs)
           = trace rs @ logs @ [SaveSession (currentState (headlessOnEvent sv now e rs))
                                  (saveSucceeds sv (trace rs @ logs))]) \<and>
      trace (tuiOnEvent sv now e rs)
        = trace rs @ [SaveSession (currentState (tuiOnEvent sv now e rs))
                        (saveSucceeds sv (trace rs))]) \<and>
   (\<not> persistsOn e \<longrightarrow>
      saveCount (trace (headlessOnEvent sv now e rs)) = saveCount (trace rs) \<and>
      currentState (headlessOnEvent sv now e rs) = currentState rs \<and>
      tuiOnEvent sv now e rs = rs) \<and>
   (\<exists>st ok rest. snd (finishRun env ps tr) = tr @ SaveSession st ok # rest
      \<and> (st = ps \<or> st = completeSession ps))"
proof (intro conjI impI)
  assume p: "persistsOn e"
  show "\<exists>logs. (\<forall>l\<in>set logs. \<not> isSave l) \<and>
      trace (headlessOnEvent sv now e rs)
        = trace rs @ logs @ [SaveSession (currentState (headlessOnEvent sv now e rs))
                               (saveSucceeds sv (trace rs @ logs))]"
  proof (cases e)
    case (IterationCompleted result)
    then show ?thesis
      by (intro exI [of _ "if taskCompleted result
            then [Logger ''iterationComplete'', Logger ''taskCompleted'']
            else [Logger ''iterationComplete'']"])
         (simp add: Let_def savePersistedSession_def)
  next
    case (EnginePaused i)
    then show ?thesis
      by (intro exI [of _ "[Logger ''enginePaused'']"])
         (simp add: Let_def savePersistedSession_def)
  next
    case (EngineResumed i)
    then show ?thesis
      by (intro exI [of _ "[Logger ''engineResumed'']"])
         (simp add: Let_def savePersistedSession_def)
  qed (use p in simp_all)
  show "trace (tuiOnEvent sv now e rs)
      = trace rs @ [SaveSession (currentState (tuiOnEvent sv now e rs))
                      (saveSucceeds sv (trace rs))]"
    using p by (cases e) (simp_all add: Let_def savePersistedSession_def)
next
  assume n: "\<not> persistsOn e"
  show "saveCount (trace (headlessOnEvent sv now e rs)) = saveCount (trace rs)"
    using n by (cases e) (simp_all add: saveCount_def)
  show "currentState (headlessOnEvent sv now e rs) = currentState rs"
    using n by (cases e) simp_all
  show "tuiOnEvent sv now e rs = rs"
    using n by (cases e) simp_all
next
  show "\<exists>st ok rest. snd (finishRun env ps tr) = tr @ SaveSession st ok # rest
      \<and> (st = ps \<or> st = completeSession ps)"
    by (rule finishRun_saves_first)
qed

theorem subscribers_save_on_event_witness:
  "persistsOn (EnginePaused 1) \<and>
   trace (tuiOnEvent (\<lambda>k. True) 1700000005000 (EnginePaused 1) sampleRunState)
     = [SaveSession (pauseSession 1700000005000 sampleState) True] \<and>
   \<not> persistsOn (EngineStopped ''max_iterations'' 5 5) \<and>
   tuiOnEvent (\<lambda>k. True) 1700000005000 (EngineStopped ''max_iterations'' 5 5) sampleRunState
     = sampleRunState"
proof -
  have p: "persistsOn (EnginePaused 1)" "\<not> persistsOn (EngineStopped ''max_iterations'' 5 5)"
    by simp_all
  have c: "trace sampleRunState = []"
    "currentState (tuiOnEvent (\<lambda>k. True) 1700000005000 (EnginePaused 1) sampleRunState)
       = pauseSession 1700000005000 sampleState"
    "saveSucceeds (\<lambda>k. True) [] = True"
    by (simp_all add: sampleRunState_def Let_def saveSucceeds_def)
  from subscribers_save_on_event
    [where e = "EnginePaused 1" and sv = "\<lambda>k. True" and now = 1700000005000
       and rs = sampleRunState] p(1) c
  have a: "trace (tuiOnEvent (\<lambda>k. True) 1700000005000 (EnginePaused 1) sampleRunState)
      = [SaveSession (pauseSession 1700000005000 sampleState) True]"
    by simp
  from subscribers_save_on_event
    [where e = "EngineStopped ''max_iterations'' 5 5" and sv = "\<lambda>k. True"
       and now = 1700000005000 and rs = sampleRunState] p(2)
  have b: "tuiOnEvent (\<lambda>k. True) 1700000005000 (EngineStopped ''max_iterations'' 5 5)
      sampleRunState = sampleRunState"
    by blast
  from p a b show ?thesis
    by blast
qed

theorem subscribers_save_on_event_counterexample:
  "saveCount (trace (headlessOnEvent (\<lambda>k. True) 1700000005000
      (EngineStopped ''max_iterations'' 5 5) sampleRunState)) = saveCount (trace sampleRunState) \<and>
   trace (tuiOnEvent (\<lambda>k. True) 1700000005000
      (EngineStopped ''max_iterations'' 5 5) sampleRunState) = trace sampleRunState \<and>
   fst (executeRunCommand
          ((sampleEnv [(1700000005000, Emit (EngineStopped ''max_iterations'' 5 5))])
             \<lparr>inputsAfterStop := [(1700000009000, ForceQuitRequested)]\<rparr>) []) = Exited 1 \<and>
   filter isSave (dropWhile (\<lambda>e. e \<noteq> EngineStart) (snd (executeRunCommand
          ((sampleEnv [(1700000005000, Emit (EngineStopped ''max_iterations'' 5 5))])
             \<lparr>inputsAfterStop := [(1700000009000, ForceQuitRequested)]\<rparr>) []))) = []"
  by code_simp

text \<open>
  C4 fails on the code. A headless run that is paused and then interrupted gracefully
  saves, as its last snapshot, a session with \<open>is_paused\<close> true and status \<open>interrupted\<close>:
  the interrupt handlers set the status and leave the pause fields as they are, where the
  \<open>engine:resumed\<close> subscriber clears them together with the status.
\<close>

theorem paused_then_interrupted_snapshot:
  "fst (executeRunCommand
          (sampleEnv [(1700000005000, Emit (EnginePaused 1)), (1700000006000, SIGTERM)])
          [''--headless'']) = Exited 0 \<and>
   fileAfter NoFile (snd (executeRunCommand
          (sampleEnv [(1700000005000, Emit (EnginePaused 1)), (1700000006000, SIGTERM)])
          [''--headless'']))
     = Snapshot (sampleState\<lparr>status := Interrupted, isPaused := True,
                              pausedAt := Some 1700000005000\<rparr>)"
  by code_simp


subsection \<open>Failing saves\<close>








end
